theory Spec2Isabelle
  imports Main
begin

section \<open>Python text\<close>

text \<open>
  The three checkers of the repository are Python scripts.  Their strings are modelled as
  \<open>string\<close> (lists of \<open>char\<close>), their integers as \<open>int\<close> (or \<open>nat\<close> for
  list positions), and the severity strings \<^verbatim>\<open>"error"\<close>, \<^verbatim>\<open>"warning"\<close>,
  \<^verbatim>\<open>"info"\<close> as a datatype.  The model covers ASCII text: the character classes
  below are the ones Python assigns to the code points 0 to 127, and a \<open>char\<close> above 127
  is in no class and is left unchanged by \<open>lower\<close>.
\<close>

datatype severity = Error | Warning | Info

definition NL :: char where
  "NL = CHR 0x0A"

definition dquote :: char where
  "dquote = CHR 0x22"

definition squote :: char where
  "squote = CHR 0x27"

definition backslash :: char where
  "backslash = CHR 0x5C"

definition backtick :: char where
  "backtick = CHR 0x60"

definition code :: "char \<Rightarrow> nat" where
  "code c = of_char c"

text \<open>The classes \<^verbatim>\<open>[a-z]\<close>, \<^verbatim>\<open>[A-Z]\<close>, \<^verbatim>\<open>\d\<close>, \<^verbatim>\<open>\w\<close> and \<^verbatim>\<open>\s\<close>
  (the last one is also what \<^verbatim>\<open>str.strip\<close> and \<^verbatim>\<open>str.split()\<close> remove).\<close>

definition is_lower :: "char \<Rightarrow> bool" where
  "is_lower c = (97 \<le> code c \<and> code c \<le> 122)"

definition is_upper :: "char \<Rightarrow> bool" where
  "is_upper c = (65 \<le> code c \<and> code c \<le> 90)"

definition is_digit :: "char \<Rightarrow> bool" where
  "is_digit c = (48 \<le> code c \<and> code c \<le> 57)"

definition is_word :: "char \<Rightarrow> bool" where
  "is_word c = (is_lower c \<or> is_upper c \<or> is_digit c \<or> c = CHR ''_'')"

definition is_space :: "char \<Rightarrow> bool" where
  "is_space c = ((9 \<le> code c \<and> code c \<le> 13) \<or> (28 \<le> code c \<and> code c \<le> 32))"

text \<open>\<^verbatim>\<open>s.startswith(p)\<close>, \<^verbatim>\<open>s.split(d)\<close> for a one-character separator, and the
  decimal rendering of an integer inside an f-string.\<close>

definition startswith :: "string \<Rightarrow> string \<Rightarrow> bool" where
  "startswith s p = (take (length p) s = p)"

fun split_on :: "char \<Rightarrow> string \<Rightarrow> string list" where
  "split_on d [] = [[]]"
| "split_on d (c # cs) =
     (if c = d then [] # split_on d cs
      else (case split_on d cs of
              [] \<Rightarrow> [[c]]
            | w # ws \<Rightarrow> (c # w) # ws))"

fun show_nat :: "nat \<Rightarrow> string" where
  "show_nat n =
     (if n < 10 then [char_of (48 + n)]
      else show_nat (n div 10) @ [char_of (48 + n mod 10)])"

declare show_nat.simps [simp del]

definition show_int :: "int \<Rightarrow> string" where
  "show_int i = (if i < 0 then CHR ''-'' # show_nat (nat (- i)) else show_nat (nat i))"

text \<open>A name between single quotes, as the messages print it.\<close>

definition quoted :: "string \<Rightarrow> string" where
  "quoted s = [squote] @ s @ [squote]"

text \<open>The anchor \<^verbatim>\<open>$\<close> of a pattern compiled without \<^verbatim>\<open>re.MULTILINE\<close>: the end of
  the string, or the position before a newline that ends the string.\<close>

definition at_dollar :: "string \<Rightarrow> bool" where
  "at_dollar s = (s = [] \<or> s = [NL])"

text \<open>
  An exception that no handler catches leaves the function that raised it and every caller,
  and ends the process with a traceback and the exit status 1.  A function that can be left
  this way returns a sum: \<open>Inl\<close> with the name of the exception, or \<open>Inr\<close> with the value it
  returns.

  What the file system gives for a path that a script reads with \<^verbatim>\<open>read_text\<close>: no such
  path (\<^verbatim>\<open>path.exists()\<close> is false); a path that exists and whose reading raises an
  \<^verbatim>\<open>OSError\<close> (a directory, a file without read permission), with the name of the
  exception; or the text.
\<close>

datatype file_state = Absent | Unreadable string | Holds string

section \<open>The Python quality gate (quality-gate.py)\<close>

subsection \<open>Issues and the report\<close>

record Issue =
  i_file :: string
  i_line :: int
  i_category :: string
  i_message :: string
  i_severity :: severity

record Report =
  issues :: "Issue list"
  files_checked :: nat
  functions_checked :: nat
  classes_checked :: nat

definition new_Report :: Report where
  "new_Report = \<lparr>issues = [], files_checked = 0, functions_checked = 0, classes_checked = 0\<rparr>"

definition passed :: "Report \<Rightarrow> bool" where
  "passed report = (\<not> list_ex (\<lambda>i. i_severity i = Error) (issues report))"

definition add :: "Report \<Rightarrow> string \<Rightarrow> int \<Rightarrow> string \<Rightarrow> string \<Rightarrow> severity \<Rightarrow> Report" where
  "add report f l category message sev =
     report\<lparr>issues := issues report @
       [\<lparr>i_file = f, i_line = l, i_category = category, i_message = message, i_severity = sev\<rparr>]\<rparr>"

subsection \<open>The syntax tree\<close>

text \<open>
  The tree is the one \<^verbatim>\<open>ast.parse\<close> returns, restricted to what the checks read.
  A statement that is neither a definition, an assignment nor an import is \<open>Other\<close>, with
  the nodes below it that can hold statements; expression nodes are left out, since no
  check matches them and no statement stands below them.  The field \<open>docstring\<close> is the
  value of \<^verbatim>\<open>ast.get_docstring\<close> on the node, \<open>end_lineno\<close> the value of
  \<^verbatim>\<open>getattr(node, "end_lineno", None)\<close>, and an annotation is kept as its source text.
  \<open>FunctionDef\<close> stands for both \<^verbatim>\<open>ast.FunctionDef\<close> and \<^verbatim>\<open>ast.AsyncFunctionDef\<close>
  (the flag \<open>is_async\<close> tells them apart); the checks treat them alike.
\<close>

record py_arg =
  arg_name :: string
  annotation :: "string option"

record arguments =
  posonlyargs :: "py_arg list"
  args :: "py_arg list"
  vararg :: "py_arg option"
  kwonlyargs :: "py_arg list"
  kwarg :: "py_arg option"

datatype target = Name string | OtherTarget

datatype stmt =
    FunctionDef (is_async: bool) (name: string) (fargs: arguments) (returns: "string option")
      (lineno: int) (end_lineno: "int option") (docstring: "string option") (body: "stmt list")
  | ClassDef (name: string) (lineno: int) (docstring: "string option") (body: "stmt list")
  | Assign (targets: "target list") (lineno: int)
  | Import (lineno: int) (names: "string list")
  | ImportFrom (lineno: int) (module: "string option") (level: nat)
  | Other (body: "stmt list")

record Module =
  m_docstring :: "string option"
  m_body :: "stmt list"

fun iter_child_nodes :: "stmt \<Rightarrow> stmt list" where
  "iter_child_nodes (FunctionDef a n ar ret l e d b) = b"
| "iter_child_nodes (ClassDef n l d b) = b"
| "iter_child_nodes (Other b) = b"
| "iter_child_nodes (Assign ts l) = []"
| "iter_child_nodes (Import l ns) = []"
| "iter_child_nodes (ImportFrom l m lv) = []"

lemma size_iter_child_nodes:
  "sum_list (map (\<lambda>x. Suc (size x)) (iter_child_nodes n)) \<le> size n"
proof -
  have le: "sum_list (map (\<lambda>x. Suc (size x)) b) \<le> size_list size b" for b :: "stmt list"
    by (induction b) auto
  show ?thesis
    using le by (cases n) (auto simp: le_SucI)
qed

text \<open>\<^verbatim>\<open>ast.walk\<close>: breadth first, from a queue of nodes still to visit.\<close>

function walk_queue :: "stmt list \<Rightarrow> stmt list" where
  "walk_queue [] = []"
| "walk_queue (n # todo) = n # walk_queue (todo @ iter_child_nodes n)"
  by pat_completeness auto
termination
  by (relation "measure (\<lambda>q. sum_list (map (\<lambda>x. Suc (size x)) q))")
    (auto simp: size_iter_child_nodes less_Suc_eq_le)

definition walk :: "Module \<Rightarrow> stmt list" where
  "walk tree = walk_queue (m_body tree)"

subsection \<open>Type hints and docstrings\<close>

text \<open>The body of the loop of \<^verbatim>\<open>check_type_hints\<close> for one node of the walk, and the
  function itself.\<close>

definition missing_hint :: "string \<Rightarrow> int \<Rightarrow> string \<Rightarrow> py_arg \<Rightarrow> Report \<Rightarrow> Report" where
  "missing_hint filepath line_no fname a report =
     (if arg_name a = ''self'' \<or> arg_name a = ''cls'' then report
      else if annotation a = None then
        add report filepath line_no ''type-hints''
          (''Parameter '' @ quoted (arg_name a) @ '' in '' @ quoted fname @ '' missing type hint'')
          Error
      else report)"

fun check_type_hints_node :: "string \<Rightarrow> stmt \<Rightarrow> Report \<Rightarrow> Report" where
  "check_type_hints_node filepath (FunctionDef a nm ar ret l e d b) report =
     (if startswith nm ''_'' \<and> nm \<noteq> ''__init__'' then report
      else
        let r1 = report\<lparr>functions_checked := functions_checked report + 1\<rparr>;
            r2 = fold (missing_hint filepath l nm) (args ar) r1
        in if nm \<noteq> ''__init__'' \<and> ret = None then
             add r2 filepath l ''type-hints''
               (''Function '' @ quoted nm @ '' missing return type annotation'') Error
           else r2)"
| "check_type_hints_node filepath (ClassDef nm l d b) report = report"
| "check_type_hints_node filepath (Assign ts l) report = report"
| "check_type_hints_node filepath (Import l ns) report = report"
| "check_type_hints_node filepath (ImportFrom l m lv) report = report"
| "check_type_hints_node filepath (Other b) report = report"

definition check_type_hints :: "Module \<Rightarrow> string \<Rightarrow> Report \<Rightarrow> Report" where
  "check_type_hints tree filepath report = fold (check_type_hints_node filepath) (walk tree) report"

text \<open>\<^verbatim>\<open>not ast.get_docstring(node)\<close>: no docstring, or an empty one.\<close>

definition no_docstring :: "string option \<Rightarrow> bool" where
  "no_docstring d = (d = None \<or> d = Some [])"

fun check_docstrings_node :: "string \<Rightarrow> stmt \<Rightarrow> Report \<Rightarrow> Report" where
  "check_docstrings_node filepath (ClassDef nm l d b) report =
     (let r1 = report\<lparr>classes_checked := classes_checked report + 1\<rparr>
      in if no_docstring d then
           add r1 filepath l ''docstrings''
             (''Class '' @ quoted nm @ '' missing docstring'') Warning
         else r1)"
| "check_docstrings_node filepath (FunctionDef a nm ar ret l e d b) report =
     (if startswith nm ''_'' \<and> nm \<noteq> ''__init__'' then report
      else if no_docstring d then
        add report filepath l ''docstrings''
          (''Function '' @ quoted nm @ '' missing docstring'') Warning
      else report)"
| "check_docstrings_node filepath (Assign ts l) report = report"
| "check_docstrings_node filepath (Import l ns) report = report"
| "check_docstrings_node filepath (ImportFrom l m lv) report = report"
| "check_docstrings_node filepath (Other b) report = report"

definition check_docstrings :: "Module \<Rightarrow> string \<Rightarrow> Report \<Rightarrow> Report" where
  "check_docstrings tree filepath report =
     (let r0 = (if no_docstring (m_docstring tree) then
                  add report filepath 1 ''docstrings'' ''Module missing docstring'' Warning
                else report)
      in fold (check_docstrings_node filepath) (walk tree) r0)"

subsection \<open>Import organization\<close>

definition STDLIB_TOP_LEVEL :: "string list" where
  "STDLIB_TOP_LEVEL = [
    ''abc'', ''aifc'', ''argparse'', ''array'', ''ast'', ''asynchat'', ''asyncio'',
    ''asyncore'', ''atexit'', ''audioop'', ''base64'', ''bdb'', ''binascii'', ''binhex'',
    ''bisect'', ''builtins'', ''bz2'', ''calendar'', ''cgi'', ''cgitb'', ''chunk'',
    ''cmath'', ''cmd'', ''code'', ''codecs'', ''codeop'', ''collections'', ''colorsys'',
    ''compileall'', ''concurrent'', ''configparser'', ''contextlib'', ''contextvars'',
    ''copy'', ''copyreg'', ''cProfile'', ''crypt'', ''csv'', ''ctypes'', ''curses'',
    ''dataclasses'', ''datetime'', ''dbm'', ''decimal'', ''difflib'', ''dis'',
    ''distutils'', ''doctest'', ''email'', ''encodings'', ''enum'', ''errno'',
    ''faulthandler'', ''fcntl'', ''filecmp'', ''fileinput'', ''fnmatch'', ''formatter'',
    ''fractions'', ''ftplib'', ''functools'', ''gc'', ''getopt'', ''getpass'', ''gettext'',
    ''glob'', ''grp'', ''gzip'', ''hashlib'', ''heapq'', ''hmac'', ''html'', ''http'',
    ''idlelib'', ''imaplib'', ''imghdr'', ''imp'', ''importlib'', ''inspect'', ''io'',
    ''ipaddress'', ''itertools'', ''json'', ''keyword'', ''lib2to3'', ''linecache'',
    ''locale'', ''logging'', ''lzma'', ''mailbox'', ''mailcap'', ''marshal'', ''math'',
    ''mimetypes'', ''mmap'', ''modulefinder'', ''multiprocessing'', ''netrc'', ''nis'',
    ''nntplib'', ''numbers'', ''operator'', ''optparse'', ''os'', ''ossaudiodev'',
    ''parser'', ''pathlib'', ''pdb'', ''pickle'', ''pickletools'', ''pipes'', ''pkgutil'',
    ''platform'', ''plistlib'', ''poplib'', ''posix'', ''posixpath'', ''pprint'',
    ''profile'', ''pstats'', ''pty'', ''pwd'', ''py_compile'', ''pyclbr'', ''pydoc'',
    ''queue'', ''quopri'', ''random'', ''re'', ''readline'', ''reprlib'', ''resource'',
    ''rlcompleter'', ''runpy'', ''sched'', ''secrets'', ''select'', ''selectors'',
    ''shelve'', ''shlex'', ''shutil'', ''signal'', ''site'', ''smtpd'', ''smtplib'',
    ''sndhdr'', ''socket'', ''socketserver'', ''spwd'', ''sqlite3'', ''sre_compile'',
    ''sre_constants'', ''sre_parse'', ''ssl'', ''stat'', ''statistics'', ''string'',
    ''stringprep'', ''struct'', ''subprocess'', ''sunau'', ''symtable'', ''sys'',
    ''sysconfig'', ''syslog'', ''tabnanny'', ''tarfile'', ''telnetlib'', ''tempfile'',
    ''termios'', ''test'', ''textwrap'', ''threading'', ''time'', ''timeit'', ''tkinter'',
    ''token'', ''tokenize'', ''tomllib'', ''trace'', ''traceback'', ''tracemalloc'',
    ''tty'', ''turtle'', ''turtledemo'', ''types'', ''typing'', ''unicodedata'',
    ''unittest'', ''urllib'', ''uu'', ''uuid'', ''venv'', ''warnings'', ''wave'',
    ''weakref'', ''webbrowser'', ''winreg'', ''winsound'', ''wsgiref'', ''xdrlib'',
    ''xml'', ''xmlrpc'', ''zipapp'', ''zipfile'', ''zipimport'', ''zlib'', ''_thread'']"

text \<open>The three group strings \<^verbatim>\<open>"stdlib"\<close>, \<^verbatim>\<open>"third-party"\<close>, \<^verbatim>\<open>"local"\<close> and the
  dictionary \<^verbatim>\<open>group_order\<close>.\<close>

datatype import_group = Stdlib | ThirdParty | Local

fun group_name :: "import_group \<Rightarrow> string" where
  "group_name Stdlib = ''stdlib''"
| "group_name ThirdParty = ''third-party''"
| "group_name Local = ''local''"

fun group_order :: "import_group \<Rightarrow> int" where
  "group_order Stdlib = 0"
| "group_order ThirdParty = 1"
| "group_order Local = 2"

text \<open>\<^verbatim>\<open>name.split(".")[0]\<close>; the list \<open>split_on\<close> returns is never empty.\<close>

definition top_level :: "string \<Rightarrow> string" where
  "top_level nm = hd (split_on (CHR ''.'') nm)"

text \<open>The records the first loop appends for one top-level statement.\<close>

fun import_records :: "stmt \<Rightarrow> (int \<times> import_group \<times> string) list" where
  "import_records (Import l ns) =
     map (\<lambda>alias. (l, (if top_level alias \<in> set STDLIB_TOP_LEVEL then Stdlib else ThirdParty), alias)) ns"
| "import_records (ImportFrom l None lv) = []"
| "import_records (ImportFrom l (Some m) lv) =
     [(l, (if lv > 0 then Local
           else if top_level m \<in> set STDLIB_TOP_LEVEL then Stdlib
           else ThirdParty), m)]"
| "import_records (FunctionDef a nm ar ret l e d b) = []"
| "import_records (ClassDef nm l d b) = []"
| "import_records (Assign ts l) = []"
| "import_records (Other b) = []"

definition collect_imports :: "Module \<Rightarrow> (int \<times> import_group \<times> string) list" where
  "collect_imports tree = concat (map import_records (m_body tree))"

text \<open>The arrow of the message is U+2192, written here as its three UTF-8 bytes.\<close>

definition arrow :: string where
  "arrow = [CHR 0xE2, CHR 0x86, CHR 0x92]"

definition import_message :: "string \<Rightarrow> import_group \<Rightarrow> string" where
  "import_message nm grp =
     ''Import '' @ quoted nm @ '' ('' @ group_name grp
       @ '') appears after a later group; expected order: stdlib '' @ arrow
       @ '' third-party '' @ arrow @ '' local''"

fun scan_imports :: "string \<Rightarrow> int \<Rightarrow> (int \<times> import_group \<times> string) list \<Rightarrow> Report \<Rightarrow> Report" where
  "scan_imports filepath prev_group_rank [] report = report"
| "scan_imports filepath prev_group_rank ((l, grp, nm) # rest) report =
     (let rank = group_order grp;
          r1 = (if rank < prev_group_rank then
                  add report filepath l ''imports'' (import_message nm grp) Warning
                else report)
      in scan_imports filepath rank rest r1)"

definition check_import_organization :: "Module \<Rightarrow> string \<Rightarrow> Report \<Rightarrow> Report" where
  "check_import_organization tree filepath report =
     (let imports = collect_imports tree
      in if imports = [] then report else scan_imports filepath (- 1) imports report)"

subsection \<open>Function length and naming\<close>

definition MAX_FUNCTION_LINES :: int where
  "MAX_FUNCTION_LINES = 50"

fun check_function_length_node :: "string \<Rightarrow> stmt \<Rightarrow> Report \<Rightarrow> Report" where
  "check_function_length_node filepath (FunctionDef a nm ar ret l e d b) report =
     (case e of
        None \<Rightarrow> report
      | Some end_line \<Rightarrow>
          let len = end_line - l + 1
          in if len > MAX_FUNCTION_LINES then
               add report filepath l ''function-length''
                 (''Function '' @ quoted nm @ '' is '' @ show_int len
                    @ '' lines (max '' @ show_int MAX_FUNCTION_LINES @ '')'') Error
             else report)"
| "check_function_length_node filepath (ClassDef nm l d b) report = report"
| "check_function_length_node filepath (Assign ts l) report = report"
| "check_function_length_node filepath (Import l ns) report = report"
| "check_function_length_node filepath (ImportFrom l m lv) report = report"
| "check_function_length_node filepath (Other b) report = report"

definition check_function_length :: "Module \<Rightarrow> string \<Rightarrow> Report \<Rightarrow> Report" where
  "check_function_length tree filepath report =
     fold (check_function_length_node filepath) (walk tree) report"

text \<open>
  The three anchored patterns, each applied with \<^verbatim>\<open>match\<close>:
  \<^verbatim>\<open>^_{0,2}[a-z][a-z0-9_]*_{0,2}$\<close>, \<^verbatim>\<open>^[A-Z][A-Z0-9_]*$\<close> and \<^verbatim>\<open>^_?[A-Z][a-zA-Z0-9]*$\<close>.
  The character after the leading underscores is not an underscore, so their number is
  fixed by the text; the starred class takes its longest run, since a shorter one leaves
  a character of the class where the end is required.
\<close>

definition SNAKE_CASE :: "string \<Rightarrow> bool" where
  "SNAKE_CASE s =
     (let u = takeWhile (\<lambda>c. c = CHR ''_'') s
      in length u \<le> 2 \<and>
         (case drop (length u) s of
            [] \<Rightarrow> False
          | c # t \<Rightarrow> is_lower c \<and>
              at_dollar (dropWhile (\<lambda>x. is_lower x \<or> is_digit x \<or> x = CHR ''_'') t)))"

definition UPPER_SNAKE :: "string \<Rightarrow> bool" where
  "UPPER_SNAKE s =
     (case s of
        [] \<Rightarrow> False
      | c # t \<Rightarrow> is_upper c \<and>
          at_dollar (dropWhile (\<lambda>x. is_upper x \<or> is_digit x \<or> x = CHR ''_'') t))"

definition PASCAL_CASE :: "string \<Rightarrow> bool" where
  "PASCAL_CASE s =
     (case (if startswith s ''_'' then tl s else s) of
        [] \<Rightarrow> False
      | c # t \<Rightarrow> is_upper c \<and>
          at_dollar (dropWhile (\<lambda>x. is_lower x \<or> is_upper x \<or> is_digit x) t))"

text \<open>\<^verbatim>\<open>keyword.iskeyword\<close> of the standard library: membership in \<^verbatim>\<open>keyword.kwlist\<close>.\<close>

definition kwlist :: "string list" where
  "kwlist = [''False'', ''None'', ''True'', ''and'', ''as'', ''assert'', ''async'', ''await'',
    ''break'', ''class'', ''continue'', ''def'', ''del'', ''elif'', ''else'', ''except'',
    ''finally'', ''for'', ''from'', ''global'', ''if'', ''import'', ''in'', ''is'', ''lambda'',
    ''nonlocal'', ''not'', ''or'', ''pass'', ''raise'', ''return'', ''try'', ''while'', ''with'',
    ''yield'']"

definition iskeyword :: "string \<Rightarrow> bool" where
  "iskeyword s = (s \<in> set kwlist)"

fun check_naming_target :: "string \<Rightarrow> int \<Rightarrow> target \<Rightarrow> Report \<Rightarrow> Report" where
  "check_naming_target filepath l OtherTarget report = report"
| "check_naming_target filepath l (Name ident) report =
     (if iskeyword ident then report
      else if UPPER_SNAKE ident then report
      else if \<not> SNAKE_CASE ident then
        add report filepath l ''naming''
          (''Variable '' @ quoted ident @ '' should use snake_case'') Warning
      else report)"

fun check_naming_node :: "string \<Rightarrow> stmt \<Rightarrow> Report \<Rightarrow> Report" where
  "check_naming_node filepath (ClassDef nm l d b) report =
     (if \<not> PASCAL_CASE nm then
        add report filepath l ''naming''
          (''Class '' @ quoted nm @ '' should use PascalCase'') Warning
      else report)"
| "check_naming_node filepath (FunctionDef a nm ar ret l e d b) report =
     (if \<not> SNAKE_CASE nm then
        add report filepath l ''naming''
          (''Function '' @ quoted nm @ '' should use snake_case'') Warning
      else report)"
| "check_naming_node filepath (Assign ts l) report = fold (check_naming_target filepath l) ts report"
| "check_naming_node filepath (Import l ns) report = report"
| "check_naming_node filepath (ImportFrom l m lv) report = report"
| "check_naming_node filepath (Other b) report = report"

definition check_naming :: "Module \<Rightarrow> string \<Rightarrow> Report \<Rightarrow> Report" where
  "check_naming tree filepath report = fold (check_naming_node filepath) (walk tree) report"

subsection \<open>One file, and the run\<close>

text \<open>
  Reading the file and \<^verbatim>\<open>ast.parse\<close> are the standard library's; what they give for a
  path is an input of the model: the text of an \<^verbatim>\<open>OSError\<close> or \<^verbatim>\<open>UnicodeDecodeError\<close>
  that reading raised (\<open>CannotRead\<close>), the \<^verbatim>\<open>lineno\<close> and \<^verbatim>\<open>msg\<close> of a
  \<^verbatim>\<open>SyntaxError\<close> that parsing raised, the name of any other exception that reading or
  parsing raised (\<open>Raises\<close>: a \<^verbatim>\<open>RecursionError\<close> or a \<^verbatim>\<open>MemoryError\<close> of the parser
  on deeply nested source, for one), or the tree.  The two \<^verbatim>\<open>except\<close> clauses of
  \<^verbatim>\<open>analyze_file\<close> name the first three exceptions only, so any other leaves it.
\<close>

datatype source_outcome =
    CannotRead string
  | SyntaxError "int option" string
  | Raises string
  | Parsed Module

definition run_checks :: "Module \<Rightarrow> string \<Rightarrow> Report \<Rightarrow> Report" where
  "run_checks tree filepath report =
     check_naming tree filepath
       (check_function_length tree filepath
          (check_import_organization tree filepath
             (check_docstrings tree filepath
                (check_type_hints tree filepath report))))"

fun analyze_file :: "string \<Rightarrow> source_outcome \<Rightarrow> Report \<Rightarrow> string + Report" where
  "analyze_file filepath (CannotRead exc) report =
     Inr (add report filepath 0 ''parse'' (''Cannot read file: '' @ exc) Error)"
| "analyze_file filepath (SyntaxError exc_lineno exc_msg) report =
     Inr (add report filepath (case exc_lineno of None \<Rightarrow> 0 | Some n \<Rightarrow> n) ''parse''
            (''Syntax error: '' @ exc_msg) Error)"
| "analyze_file filepath (Raises exc) report = Inl exc"
| "analyze_file filepath (Parsed tree) report =
     Inr (run_checks tree filepath (report\<lparr>files_checked := files_checked report + 1\<rparr>))"

text \<open>The loop \<^verbatim>\<open>for f in files: analyze_file(f, report)\<close> of \<^verbatim>\<open>main\<close>: an exception
  that leaves \<^verbatim>\<open>analyze_file\<close> leaves the loop, and the files after it are not read.\<close>

fun analyze_files ::
    "(string \<Rightarrow> source_outcome) \<Rightarrow> string list \<Rightarrow> Report \<Rightarrow> string + Report" where
  "analyze_files load [] report = Inr report"
| "analyze_files load (f # files) report =
     (case analyze_file f (load f) report of
        Inl exc \<Rightarrow> Inl exc
      | Inr report' \<Rightarrow> analyze_files load files report')"


text \<open>
  \<^verbatim>\<open>main\<close>, as the exit status of the process.  \<open>argv\<close> is \<^verbatim>\<open>sys.argv\<close>;
  \<open>collect_python_files\<close> is the file discovery (the paths found under the target) and
  \<open>load\<close> what reading and parsing a path gives.  \<^verbatim>\<open>main\<close> has no handler, so an
  exception that leaves the loop ends the process with status 1, before any report is
  printed.
\<close>

definition quality_gate_main ::
    "string list \<Rightarrow> (string \<Rightarrow> string list) \<Rightarrow> (string \<Rightarrow> source_outcome) \<Rightarrow> int" where
  "quality_gate_main argv collect_python_files load =
     (if length argv < 2 then 2
      else
        let files = collect_python_files (argv ! 1)
        in if files = [] then 2
           else
             (case analyze_files load files new_Report of
                Inl exc \<Rightarrow> 1
              | Inr report \<Rightarrow> (if passed report then 0 else 1)))"

section \<open>The markdown validator (doc-structure-validator.py)\<close>

subsection \<open>String methods\<close>

definition lower_char :: "char \<Rightarrow> char" where
  "lower_char c = (if is_upper c then char_of (code c + 32) else c)"

definition lower :: "string \<Rightarrow> string" where
  "lower s = map lower_char s"

definition strip :: "string \<Rightarrow> string" where
  "strip s = rev (dropWhile is_space (rev (dropWhile is_space s)))"

text \<open>\<^verbatim>\<open>s.split()\<close>: the maximal runs of characters that are not whitespace.\<close>

fun split_ws :: "string \<Rightarrow> string \<Rightarrow> string list" where
  "split_ws cur [] = (if cur = [] then [] else [cur])"
| "split_ws cur (c # cs) =
     (if is_space c then (if cur = [] then [] else [cur]) @ split_ws [] cs
      else split_ws (cur @ [c]) cs)"

definition py_split :: "string \<Rightarrow> string list" where
  "py_split s = split_ws [] s"

fun join :: "string \<Rightarrow> string list \<Rightarrow> string" where
  "join sep [] = []"
| "join sep [x] = x"
| "join sep (x # y # ys) = x @ sep @ join sep (y # ys)"

subsection \<open>Issues and the report\<close>

record DocIssue =
  d_line :: int
  d_severity :: severity
  d_category :: string
  d_message :: string

record SectionInfo =
  s_heading :: string
  s_level :: nat
  s_line :: int
  s_word_count :: nat

record ValidationReport =
  file_path :: string
  total_words :: nat
  total_headings :: nat
  total_code_blocks :: nat
  total_images :: nat
  total_links :: nat
  sections :: "SectionInfo list"
  v_issues :: "DocIssue list"

definition error_count :: "ValidationReport \<Rightarrow> nat" where
  "error_count report = length (filter (\<lambda>i. d_severity i = Error) (v_issues report))"

definition warning_count :: "ValidationReport \<Rightarrow> nat" where
  "warning_count report = length (filter (\<lambda>i. d_severity i = Warning) (v_issues report))"

definition info_count :: "ValidationReport \<Rightarrow> nat" where
  "info_count report = length (filter (\<lambda>i. d_severity i = Info) (v_issues report))"

subsection \<open>The patterns\<close>

text \<open>
  \<^verbatim>\<open>HEADING_PATTERN = ^(#{1,6})\s+(.+)$\<close>, applied with \<^verbatim>\<open>match\<close>; the result is the
  two groups.  The character after the hashes is whitespace, so the first group is the
  whole run of hashes, of length 1 to 6.  The whitespace is tried from its longest run
  down to one character; from where it ends, \<^verbatim>\<open>.+\<close> takes the characters up to the next
  newline, and \<^verbatim>\<open>$\<close> must hold where they end.
\<close>

definition heading_tail :: "string \<Rightarrow> string option" where
  "heading_tail q =
     (let run = takeWhile (\<lambda>c. c \<noteq> NL) q
      in if run \<noteq> [] \<and> at_dollar (drop (length run) q) then Some run else None)"

fun first_some :: "('a \<Rightarrow> 'b option) \<Rightarrow> 'a list \<Rightarrow> 'b option" where
  "first_some f [] = None"
| "first_some f (x # xs) = (case f x of Some y \<Rightarrow> Some y | None \<Rightarrow> first_some f xs)"

definition HEADING_PATTERN :: "string \<Rightarrow> (string \<times> string) option" where
  "HEADING_PATTERN s =
     (let hashes = takeWhile (\<lambda>c. c = CHR ''#'') s;
          rest = drop (length hashes) s;
          ws = takeWhile is_space rest
      in if length hashes < 1 \<or> 6 < length hashes then None
         else (case first_some (\<lambda>j. heading_tail (drop j rest)) (rev [1..<Suc (length ws)]) of
                 None \<Rightarrow> None
               | Some t \<Rightarrow> Some (hashes, t)))"

text \<open>
  The bracket-and-parenthesis part of \<^verbatim>\<open>IMAGE_PATTERN = !\[([^\]]*)\]\(([^)]+)\)\<close> and of
  \<^verbatim>\<open>LINK_PATTERN = (?<!!)\[([^\]]+)\]\(([^)]+)\)\<close>, read at the start of a string:
  the two groups and the number of characters matched.  \<open>min_text\<close> is 0 for the star
  and 1 for the plus.  Each class excludes the character that must follow it, so it takes
  its longest run.
\<close>

definition bracket_paren :: "nat \<Rightarrow> string \<Rightarrow> (string \<times> string \<times> nat) option" where
  "bracket_paren min_text s =
     (case s of
        [] \<Rightarrow> None
      | c # s1 \<Rightarrow>
          if c \<noteq> CHR ''['' then None
          else
            let t = takeWhile (\<lambda>x. x \<noteq> CHR '']'') s1;
                s2 = drop (length t) s1
            in if length t < min_text then None
               else if \<not> startswith s2 '']('' then None
               else
                 let s3 = drop 2 s2;
                     h = takeWhile (\<lambda>x. x \<noteq> CHR '')'') s3;
                     s4 = drop (length h) s3
                 in if h = [] then None
                    else if \<not> startswith s4 '')'' then None
                    else Some (t, h, length t + length h + 4))"

text \<open>
  \<^verbatim>\<open>finditer\<close>: the matches from left to right, each search starting where the match
  before it ended.  The functions go through the string one character at a time; \<open>skip\<close>
  counts the characters still inside the last match, and \<open>prev\<close> is the character before
  the current one (none at the start).
\<close>

fun IMAGE_PATTERN_finditer :: "nat \<Rightarrow> string \<Rightarrow> (string \<times> string) list" where
  "IMAGE_PATTERN_finditer skip [] = []"
| "IMAGE_PATTERN_finditer skip (c # cs) =
     (if skip > 0 then IMAGE_PATTERN_finditer (skip - 1) cs
      else if c = CHR ''!'' then
        (case bracket_paren 0 cs of
           Some (alt, src, n) \<Rightarrow> (alt, src) # IMAGE_PATTERN_finditer n cs
         | None \<Rightarrow> IMAGE_PATTERN_finditer 0 cs)
      else IMAGE_PATTERN_finditer 0 cs)"

fun LINK_PATTERN_finditer :: "nat \<Rightarrow> char option \<Rightarrow> string \<Rightarrow> (string \<times> string) list" where
  "LINK_PATTERN_finditer skip prev [] = []"
| "LINK_PATTERN_finditer skip prev (c # cs) =
     (if skip > 0 then LINK_PATTERN_finditer (skip - 1) (Some c) cs
      else if prev \<noteq> Some (CHR ''!'') then
        (case bracket_paren 1 (c # cs) of
           Some (t, h, n) \<Rightarrow> (t, h) # LINK_PATTERN_finditer (n - 1) (Some c) cs
         | None \<Rightarrow> LINK_PATTERN_finditer 0 (Some c) cs)
      else LINK_PATTERN_finditer 0 (Some c) cs)"

text \<open>
  \<^verbatim>\<open>MARKER_PATTERN = \b(TODO|TBD|FIXME|HACK|XXX)\b\<close> with \<^verbatim>\<open>re.IGNORECASE\<close>, and
  \<^verbatim>\<open>TODO_PATTERN\<close> of the review checklist, which has the same form: one of a list of
  words between two word boundaries, with \<^verbatim>\<open>finditer\<close>.  A match starts with a letter,
  so the first \<^verbatim>\<open>\b\<close> asks for the start of the string or a character before it that is
  not a word character; no word of a list is the start of another one.
\<close>

definition istartswith :: "string \<Rightarrow> string \<Rightarrow> bool" where
  "istartswith s w = (lower (take (length w) s) = lower w)"

definition word_end :: "string \<Rightarrow> bool" where
  "word_end s = (case s of [] \<Rightarrow> True | c # _ \<Rightarrow> \<not> is_word c)"

definition word_at :: "string list \<Rightarrow> string \<Rightarrow> string option" where
  "word_at ws s =
     first_some (\<lambda>w. if istartswith s w \<and> word_end (drop (length w) s)
                      then Some (take (length w) s) else None) ws"

fun word_finditer :: "string list \<Rightarrow> nat \<Rightarrow> char option \<Rightarrow> string \<Rightarrow> string list" where
  "word_finditer ws skip prev [] = []"
| "word_finditer ws skip prev (c # cs) =
     (if skip > 0 then word_finditer ws (skip - 1) (Some c) cs
      else if (case prev of None \<Rightarrow> True | Some p \<Rightarrow> \<not> is_word p) then
        (case word_at ws (c # cs) of
           Some m \<Rightarrow> m # word_finditer ws (length m - 1) (Some c) cs
         | None \<Rightarrow> word_finditer ws 0 (Some c) cs)
      else word_finditer ws 0 (Some c) cs)"

definition MARKER_PATTERN_finditer :: "string \<Rightarrow> string list" where
  "MARKER_PATTERN_finditer s = word_finditer [''TODO'', ''TBD'', ''FIXME'', ''HACK'', ''XXX''] 0 None s"

text \<open>
  \<^verbatim>\<open>ANCHOR_PATTERN = <a\s+(?:name|id)\s*=\s*["']([^"']+)["']\<close> with \<^verbatim>\<open>re.IGNORECASE\<close>,
  read at the start of a string: the group and the number of characters matched.
\<close>

definition is_quote :: "char \<Rightarrow> bool" where
  "is_quote c = (c = dquote \<or> c = squote)"

definition anchor_at :: "string \<Rightarrow> (string \<times> nat) option" where
  "anchor_at s =
     (if \<not> istartswith s ''<a'' then None
      else
        let r0 = drop 2 s;
            r1 = dropWhile is_space r0
        in if length r1 = length r0 then None
           else
             let r2 = (if istartswith r1 ''name'' then Some (drop 4 r1)
                       else if istartswith r1 ''id'' then Some (drop 2 r1)
                       else None)
             in (case r2 of
                   None \<Rightarrow> None
                 | Some r2' \<Rightarrow>
                     (case dropWhile is_space r2' of
                        [] \<Rightarrow> None
                      | e # r3 \<Rightarrow>
                          if e \<noteq> CHR ''='' then None
                          else
                            (case dropWhile is_space r3 of
                               [] \<Rightarrow> None
                             | q # r4 \<Rightarrow>
                                 if \<not> is_quote q then None
                                 else
                                   let v = takeWhile (\<lambda>x. \<not> is_quote x) r4;
                                       r5 = drop (length v) r4
                                   in if v = [] \<or> r5 = [] then None
                                      else Some (v, length s - length r5 + 1)))))"

fun ANCHOR_PATTERN_finditer :: "nat \<Rightarrow> string \<Rightarrow> string list" where
  "ANCHOR_PATTERN_finditer skip [] = []"
| "ANCHOR_PATTERN_finditer skip (c # cs) =
     (if skip > 0 then ANCHOR_PATTERN_finditer (skip - 1) cs
      else
        (case anchor_at (c # cs) of
           Some (v, n) \<Rightarrow> v # ANCHOR_PATTERN_finditer (n - 1) cs
         | None \<Rightarrow> ANCHOR_PATTERN_finditer 0 cs))"

subsection \<open>Slugs and words\<close>

text \<open>\<^verbatim>\<open>re.sub(r"[\s]+", "-", text)\<close>: every maximal run of whitespace becomes one hyphen
  (\<open>in_run\<close>: the character before was whitespace).\<close>

fun hyphenate :: "bool \<Rightarrow> string \<Rightarrow> string" where
  "hyphenate in_run [] = []"
| "hyphenate in_run (c # cs) =
     (if is_space c then (if in_run then hyphenate True cs else CHR ''-'' # hyphenate True cs)
      else c # hyphenate False cs)"

definition slugify_heading :: "string \<Rightarrow> string" where
  "slugify_heading text0 =
     (let text1 = lower (strip text0);
          text2 = filter (\<lambda>c. is_word c \<or> is_space c \<or> c = CHR ''-'') text1
      in hyphenate False text2)"

\<comment> \<open>\<^verbatim>\<open>re.sub(r"`[^`]+`", "", text)\<close>: a backtick, at least one character that is not one,
  and a backtick are removed.\<close>
fun strip_code_spans :: "nat \<Rightarrow> string \<Rightarrow> string" where
  "strip_code_spans skip [] = []"
| "strip_code_spans skip (c # cs) =
     (if skip > 0 then strip_code_spans (skip - 1) cs
      else if c = backtick then
        (let run = takeWhile (\<lambda>x. x \<noteq> backtick) cs
         in if run \<noteq> [] \<and> drop (length run) cs \<noteq> [] then strip_code_spans (length run + 1) cs
            else c # strip_code_spans 0 cs)
      else c # strip_code_spans 0 cs)"

definition count_words :: "string \<Rightarrow> nat" where
  "count_words text0 =
     (let cleaned = strip_code_spans 0 text0;
          cleaned2 = map (\<lambda>c. if c \<in> set ''#*_[]()>|'' then CHR '' '' else c) cleaned
      in length (py_split cleaned2))"

subsection \<open>Parsing a document\<close>

record heading =
  h_level :: nat
  h_text :: string
  h_line :: int

record code_block =
  cb_start :: int
  cb_end :: int
  cb_lang :: "string option"
  cb_unclosed :: bool

record image =
  img_alt :: string
  img_src :: string
  img_line :: int

record link =
  l_text :: string
  l_href :: string
  l_line :: int

record parse_state =
  headings :: "heading list"
  code_blocks :: "code_block list"
  images :: "image list"
  links :: "link list"
  in_code_block :: bool
  code_block_start :: int
  code_block_lang :: "string option"

definition fence :: string where
  "fence = [backtick, backtick, backtick]"

text \<open>
  \<^verbatim>\<open>stripped[3:].strip().split()[0] if len(stripped) > 3 else ""\<close>.  Python raises
  \<^verbatim>\<open>IndexError\<close> when the list of words is empty; the first case below stands for it, and
  \<open>fence_lang_words\<close> shows that it is never taken on a stripped line.
\<close>

definition fence_lang :: "string \<Rightarrow> string" where
  "fence_lang stripped =
     (if length stripped > 3 then
        (case py_split (strip (drop 3 stripped)) of
           [] \<Rightarrow> []
         | w # ws \<Rightarrow> w)
      else [])"

definition parse_line :: "int \<Rightarrow> string \<Rightarrow> parse_state \<Rightarrow> parse_state" where
  "parse_line i line st =
     (let stripped = strip line
      in if startswith stripped fence then
           (if \<not> in_code_block st then
              st\<lparr>in_code_block := True, code_block_start := i,
                 code_block_lang := Some (fence_lang stripped)\<rparr>
            else
              st\<lparr>in_code_block := False,
                 code_blocks := code_blocks st @
                   [\<lparr>cb_start = code_block_start st, cb_end = i, cb_lang = code_block_lang st,
                     cb_unclosed = False\<rparr>],
                 code_block_lang := None\<rparr>)
         else if in_code_block st then st
         else
           let st1 = (case HEADING_PATTERN stripped of
                        Some (g1, g2) \<Rightarrow>
                          st\<lparr>headings := headings st @
                            [\<lparr>h_level = length g1, h_text = strip g2, h_line = i\<rparr>]\<rparr>
                      | None \<Rightarrow> st);
               st2 = st1\<lparr>images := images st1 @
                      map (\<lambda>(alt, src). \<lparr>img_alt = alt, img_src = src, img_line = i\<rparr>)
                        (IMAGE_PATTERN_finditer 0 line)\<rparr>
           in st2\<lparr>links := links st2 @
                map (\<lambda>(t, h). \<lparr>l_text = t, l_href = h, l_line = i\<rparr>)
                  (LINK_PATTERN_finditer 0 None line)\<rparr>)"

fun parse_lines :: "int \<Rightarrow> string list \<Rightarrow> parse_state \<Rightarrow> parse_state" where
  "parse_lines i [] st = st"
| "parse_lines i (line # rest) st = parse_lines (i + 1) rest (parse_line i line st)"

definition parse_document ::
    "string list \<Rightarrow> heading list \<times> code_block list \<times> image list \<times> link list" where
  "parse_document lines =
     (let st0 = \<lparr>headings = [], code_blocks = [], images = [], links = [],
                  in_code_block = False, code_block_start = - 1, code_block_lang = None\<rparr>;
          st = parse_lines 1 lines st0;
          blocks = (if in_code_block st then
                      code_blocks st @
                        [\<lparr>cb_start = code_block_start st, cb_end = int (length lines),
                          cb_lang = code_block_lang st, cb_unclosed = True\<rparr>]
                    else code_blocks st)
      in (headings st, blocks, images st, links st))"

subsection \<open>The validations\<close>

definition doc_issue :: "int \<Rightarrow> severity \<Rightarrow> string \<Rightarrow> string \<Rightarrow> DocIssue" where
  "doc_issue l sev category message =
     \<lparr>d_line = l, d_severity = sev, d_category = category, d_message = message\<rparr>"

fun hierarchy_scan :: "nat \<Rightarrow> heading list \<Rightarrow> DocIssue list \<Rightarrow> DocIssue list" where
  "hierarchy_scan prev_level [] acc = acc"
| "hierarchy_scan prev_level (h # hs) acc =
     hierarchy_scan (h_level h) hs
       (if prev_level > 0 \<and> h_level h > prev_level + 1 then
          acc @ [doc_issue (h_line h) Error ''heading-hierarchy''
            (''Heading level skipped: H'' @ show_nat prev_level @ '' -> H'' @ show_nat (h_level h)
               @ '' ('' @ quoted (h_text h) @ ''). Expected H'' @ show_nat (prev_level + 1)
               @ '' or lower.'')]
        else acc)"

definition validate_heading_hierarchy :: "heading list \<Rightarrow> DocIssue list \<Rightarrow> DocIssue list" where
  "validate_heading_hierarchy hs acc =
     (if hs = [] then acc @ [doc_issue 1 Warning ''structure'' ''Document has no headings.'']
      else hierarchy_scan 0 hs acc)"

text \<open>The inner loop of \<^verbatim>\<open>validate_empty_sections\<close> over the stripped lines of one
  section: the lines that count as content.\<close>

fun content_lines :: "bool \<Rightarrow> string list \<Rightarrow> string list" where
  "content_lines in_code [] = []"
| "content_lines in_code (raw # rest) =
     (if startswith raw fence then content_lines (\<not> in_code) rest
      else if \<not> in_code \<and> raw \<noteq> [] \<and> HEADING_PATTERN raw = None then raw # content_lines in_code rest
      else content_lines in_code rest)"

fun empty_sections_loop ::
    "heading list \<Rightarrow> string list \<Rightarrow> SectionInfo list \<times> DocIssue list \<Rightarrow>
       SectionInfo list \<times> DocIssue list" where
  "empty_sections_loop [] lines result = result"
| "empty_sections_loop (h # hs) lines (secs, acc) =
     (let total_lines = int (length lines);
          start_line = h_line h;
          end_line = (case hs of [] \<Rightarrow> total_lines | h2 # hs2 \<Rightarrow> h_line h2 - 1);
          raws = map (\<lambda>li. if int li < total_lines then strip (lines ! li) else [])
                   [nat start_line ..< nat end_line];
          word_count = sum_list (map count_words (content_lines False raws));
          sec = \<lparr>s_heading = h_text h, s_level = h_level h, s_line = h_line h,
                  s_word_count = word_count\<rparr>
      in empty_sections_loop hs lines
           (secs @ [sec],
            (if word_count = 0 then
               acc @ [doc_issue (h_line h) Warning ''empty-section''
                 (''Section '' @ quoted (h_text h) @ '' appears to have no content.'')]
             else acc)))"

definition validate_empty_sections ::
    "heading list \<Rightarrow> string list \<Rightarrow> DocIssue list \<Rightarrow> SectionInfo list \<times> DocIssue list" where
  "validate_empty_sections hs lines acc = empty_sections_loop hs lines ([], acc)"

definition heading_slugs :: "heading list \<Rightarrow> string list \<Rightarrow> string list" where
  "heading_slugs hs lines =
     map (\<lambda>h. slugify_heading (h_text h)) hs @
     map lower (ANCHOR_PATTERN_finditer 0 (join [NL] lines))"

definition broken_link_message :: "string \<Rightarrow> string" where
  "broken_link_message target =
     ''Internal link '' @ quoted (CHR ''#'' # target) @ '' does not match any heading or anchor.''"

definition check_link :: "string list \<Rightarrow> link \<Rightarrow> DocIssue list \<Rightarrow> DocIssue list" where
  "check_link slugs lk acc =
     (if startswith (l_href lk) ''#'' then
        (let target = lower (drop 1 (l_href lk))
         in if target \<notin> set slugs then
              acc @ [doc_issue (l_line lk) Error ''broken-link'' (broken_link_message target)]
            else acc)
      else acc)"

definition validate_internal_links ::
    "heading list \<Rightarrow> link list \<Rightarrow> string list \<Rightarrow> DocIssue list \<Rightarrow> DocIssue list" where
  "validate_internal_links hs lks lines acc = fold (check_link (heading_slugs hs lines)) lks acc"

definition unclosed_message :: string where
  "unclosed_message = ''Unclosed code block (missing closing '' @ fence @ '').''"

definition check_code_block :: "code_block \<Rightarrow> DocIssue list \<Rightarrow> DocIssue list" where
  "check_code_block cb acc =
     (if cb_unclosed cb then
        acc @ [doc_issue (cb_start cb) Error ''code-block'' unclosed_message]
      else if cb_lang cb = None \<or> cb_lang cb = Some [] then
        acc @ [doc_issue (cb_start cb) Warning ''code-block''
          (''Code block missing language tag (e.g., '' @ fence @ ''python).'')]
      else acc)"

definition validate_code_blocks :: "code_block list \<Rightarrow> DocIssue list \<Rightarrow> DocIssue list" where
  "validate_code_blocks cbs acc = fold check_code_block cbs acc"

definition check_image :: "image \<Rightarrow> DocIssue list \<Rightarrow> DocIssue list" where
  "check_image img acc =
     (if strip (img_alt img) = [] then
        acc @ [doc_issue (img_line img) Warning ''accessibility''
          (''Image missing alt text: '' @ img_src img)]
      else acc)"

definition validate_images :: "image list \<Rightarrow> DocIssue list \<Rightarrow> DocIssue list" where
  "validate_images imgs acc = fold check_image imgs acc"

fun markers_loop :: "int \<Rightarrow> bool \<Rightarrow> string list \<Rightarrow> DocIssue list \<Rightarrow> DocIssue list" where
  "markers_loop i in_code [] acc = acc"
| "markers_loop i in_code (line # rest) acc =
     (if startswith (strip line) fence then markers_loop (i + 1) (\<not> in_code) rest acc
      else if in_code then markers_loop (i + 1) in_code rest acc
      else markers_loop (i + 1) in_code rest
             (acc @ map (\<lambda>m. doc_issue i Info ''marker''
                 (''Found '' @ quoted m @ '' marker: '' @ take 80 (strip line)))
               (MARKER_PATTERN_finditer line)))"

definition validate_markers :: "string list \<Rightarrow> DocIssue list \<Rightarrow> DocIssue list" where
  "validate_markers lines acc = markers_loop 1 False lines acc"

subsection \<open>One document, and the run\<close>

fun word_lines :: "bool \<Rightarrow> string list \<Rightarrow> string list" where
  "word_lines in_code [] = []"
| "word_lines in_code (line # rest) =
     (if startswith (strip line) fence then word_lines (\<not> in_code) rest
      else if \<not> in_code then line # word_lines in_code rest
      else word_lines in_code rest)"

text \<open>
  \<^verbatim>\<open>validate_document\<close>.  What the file system gives for the path is an input.  The
  text is what \<^verbatim>\<open>read_text\<close> returns, decoded as UTF-8 or, after a
  \<^verbatim>\<open>UnicodeDecodeError\<close>, as Latin-1; an \<^verbatim>\<open>OSError\<close> of \<^verbatim>\<open>read_text\<close> has no handler
  and leaves the function.
\<close>

definition validate_text :: "string \<Rightarrow> string \<Rightarrow> ValidationReport" where
  "validate_text fp content =
     (let lines = split_on NL content;
          (hs, cbs, imgs, lks) = parse_document lines;
          issues1 = validate_heading_hierarchy hs [];
          (secs, issues2) = validate_empty_sections hs lines issues1;
          issues3 = validate_internal_links hs lks lines issues2;
          issues4 = validate_code_blocks cbs issues3;
          issues5 = validate_images imgs issues4;
          issues6 = validate_markers lines issues5
      in \<lparr>file_path = fp,
          total_words = count_words (join '' '' (word_lines False lines)),
          total_headings = length hs, total_code_blocks = length cbs,
          total_images = length imgs, total_links = length lks,
          sections = secs, v_issues = issues6\<rparr>)"

definition validate_document :: "string \<Rightarrow> file_state \<Rightarrow> string + ValidationReport" where
  "validate_document fp found =
     (case found of
        Absent \<Rightarrow>
          Inr \<lparr>file_path = fp, total_words = 0, total_headings = 0, total_code_blocks = 0,
               total_images = 0, total_links = 0, sections = [],
               v_issues = [doc_issue 0 Error ''file'' (''File not found: '' @ fp)]\<rparr>
      | Unreadable exc \<Rightarrow> Inl exc
      | Holds content \<Rightarrow> Inr (validate_text fp content))"

text \<open>The loop \<^verbatim>\<open>for file_path in files\<close> of \<^verbatim>\<open>main\<close>, which collects the reports; an
  exception that leaves \<^verbatim>\<open>validate_document\<close> leaves the loop.\<close>

fun validate_documents ::
    "(string \<Rightarrow> file_state) \<Rightarrow> string list \<Rightarrow> string + ValidationReport list" where
  "validate_documents read [] = Inr []"
| "validate_documents read (fp # files) =
     (case validate_document fp (read fp) of
        Inl exc \<Rightarrow> Inl exc
      | Inr report \<Rightarrow>
          (case validate_documents read files of
             Inl exc \<Rightarrow> Inl exc
           | Inr reports \<Rightarrow> Inr (report # reports)))"

text \<open>
  \<^verbatim>\<open>main\<close>, as the exit status of the process, from the arguments that \<^verbatim>\<open>argparse\<close>
  has parsed.  \<open>IsDir files\<close> is a target that is a directory, with the result of
  \<^verbatim>\<open>find_markdown_files\<close>; \<open>IsFile\<close> a target that is a file; \<open>Missing\<close> any other.
  \<open>read\<close> gives what the file system holds for a path.  A run that reaches the end of
  \<^verbatim>\<open>main\<close> exits with status 0, and one that an exception ends exits with status 1.
\<close>

record doc_args =
  a_path :: string
  a_json :: bool
  a_recursive :: bool
  a_fail_on_warnings :: bool

datatype target_kind = IsDir "string list" | IsFile | Missing

definition exit_for_reports :: "doc_args \<Rightarrow> ValidationReport list \<Rightarrow> int" where
  "exit_for_reports a reports =
     (let total_errors = sum_list (map error_count reports);
          total_warnings = sum_list (map warning_count reports)
      in if total_errors > 0 then 1
         else if a_fail_on_warnings a \<and> total_warnings > 0 then 1
         else 0)"

definition validate_and_exit :: "doc_args \<Rightarrow> (string \<Rightarrow> file_state) \<Rightarrow> string list \<Rightarrow> int" where
  "validate_and_exit a read files =
     (case validate_documents read files of
        Inl exc \<Rightarrow> 1
      | Inr reports \<Rightarrow> exit_for_reports a reports)"

definition doc_validator_main ::
    "doc_args \<Rightarrow> target_kind \<Rightarrow> (string \<Rightarrow> file_state) \<Rightarrow> int" where
  "doc_validator_main a target read =
     (case target of
        IsDir found \<Rightarrow>
          if \<not> a_recursive a then 1
          else if found = [] then 1
          else validate_and_exit a read found
      | IsFile \<Rightarrow> validate_and_exit a read [a_path a]
      | Missing \<Rightarrow> 1)"

section \<open>The JavaScript review checklist (review-checklist.py)\<close>

subsection \<open>Issues and the report\<close>

record ReviewIssue =
  r_rule :: string
  r_severity :: severity
  r_line :: int
  r_message :: string

record ReviewReport =
  r_file :: string
  r_total_lines :: nat
  r_issues :: "ReviewIssue list"

definition review_issue :: "string \<Rightarrow> severity \<Rightarrow> int \<Rightarrow> string \<Rightarrow> ReviewIssue" where
  "review_issue rule_id sev l message =
     \<lparr>r_rule = rule_id, r_severity = sev, r_line = l, r_message = message\<rparr>"

subsection \<open>Pieces of patterns\<close>

text \<open>
  Each piece reads a prefix of a string and returns what is left, or \<open>None\<close> when the
  prefix is not there: a literal, \<^verbatim>\<open>\s+\<close>, \<^verbatim>\<open>\w+\<close> (with the word it read), and
  \<^verbatim>\<open>\([^)]*\)\<close>.  \<^verbatim>\<open>\s*\<close> is \<open>dropWhile is_space\<close>.  Everywhere they are used, what
  follows cannot start with a character of the class, so the class takes its longest run.
\<close>

definition lit :: "string \<Rightarrow> string \<Rightarrow> string option" where
  "lit w s = (if startswith s w then Some (drop (length w) s) else None)"

definition spaces1 :: "string \<Rightarrow> string option" where
  "spaces1 s = (case s of [] \<Rightarrow> None | c # r \<Rightarrow> if is_space c then Some (dropWhile is_space r) else None)"

definition word1 :: "string \<Rightarrow> (string \<times> string) option" where
  "word1 s = (case s of [] \<Rightarrow> None
              | c # r \<Rightarrow> if is_word c then Some (takeWhile is_word s, dropWhile is_word s) else None)"

definition parens :: "string \<Rightarrow> string option" where
  "parens s =
     (case s of
        [] \<Rightarrow> None
      | c # r \<Rightarrow>
          if c \<noteq> CHR ''('' then None
          else (case dropWhile (\<lambda>x. x \<noteq> CHR '')'') r of [] \<Rightarrow> None | d # r2 \<Rightarrow> Some r2))"

text \<open>\<^verbatim>\<open>(?:kw\s+)?\<close>: the keyword and its whitespace are read when they are there.  None
  of the patterns that follow it can match at the keyword, so leaving it unread never
  helps.\<close>

definition opt_keyword :: "string \<Rightarrow> string \<Rightarrow> string" where
  "opt_keyword kw s =
     (case lit kw s of
        None \<Rightarrow> s
      | Some r \<Rightarrow> (case spaces1 r of None \<Rightarrow> s | Some r2 \<Rightarrow> r2))"

subsection \<open>\<^verbatim>\<open>FUNCTION_PATTERN\<close> and the function spans\<close>

text \<open>
  The last group of the second branch:
  \<^verbatim>\<open>(?:function|\([^)]*\)\s*=>|\w+\s*=>)\<close>.
\<close>

definition function_value :: "string \<Rightarrow> bool" where
  "function_value s =
     (startswith s ''function''
      \<or> (case parens s of None \<Rightarrow> False | Some r \<Rightarrow> startswith (dropWhile is_space r) ''=>'')
      \<or> (case word1 s of None \<Rightarrow> False | Some (w, r) \<Rightarrow> startswith (dropWhile is_space r) ''=>''))"

text \<open>
  \<^verbatim>\<open>function\s+(\w+)\<close>, or
  \<^verbatim>\<open>(?:const|let|var)\s+(\w+)\s*=\s*(?:async\s+)?(?:function|...)\<close>: the name that group 1
  or group 2 holds.  After \<^verbatim>\<open>async\<close> and whitespace the value is tried; when that
  fails, \<^verbatim>\<open>async\<close> itself is tried as the parameter of an arrow function.
\<close>

definition declared_name :: "string \<Rightarrow> string option" where
  "declared_name s =
     (case lit ''function'' s of
        Some r \<Rightarrow>
          (case spaces1 r of
             None \<Rightarrow> None
           | Some r2 \<Rightarrow> (case word1 r2 of None \<Rightarrow> None | Some (w, r3) \<Rightarrow> Some w))
      | None \<Rightarrow>
          (case first_some (\<lambda>kw. lit kw s) [''const'', ''let'', ''var''] of
             None \<Rightarrow> None
           | Some r \<Rightarrow>
               (case spaces1 r of
                  None \<Rightarrow> None
                | Some r2 \<Rightarrow>
                    (case word1 r2 of
                       None \<Rightarrow> None
                     | Some (w, r3) \<Rightarrow>
                         (case dropWhile is_space r3 of
                            [] \<Rightarrow> None
                          | e # r4 \<Rightarrow>
                              if e \<noteq> CHR ''='' then None
                              else
                                let v = dropWhile is_space r4
                                in if function_value (opt_keyword ''async'' v) \<or> function_value v
                                   then Some w else None)))))"

text \<open>The first branch after \<^verbatim>\<open>(?:^|\s)\<close>, and the third branch
  \<^verbatim>\<open>(\w+)\s*\([^)]*\)\s*\{\<close> with the name of group 3.\<close>

definition declared_function :: "string \<Rightarrow> string option" where
  "declared_function s =
     declared_name (opt_keyword ''async'' (opt_keyword ''default'' (opt_keyword ''export'' s)))"

definition method_shorthand :: "string \<Rightarrow> string option" where
  "method_shorthand s =
     (case word1 s of
        None \<Rightarrow> None
      | Some (w, r) \<Rightarrow>
          (case parens (dropWhile is_space r) of
             None \<Rightarrow> None
           | Some r2 \<Rightarrow> if startswith (dropWhile is_space r2) ''{'' then Some w else None))"

text \<open>
  The pattern at one position: \<open>prev\<close> is the character before it.  \<^verbatim>\<open>^\<close> (the pattern
  is compiled with \<^verbatim>\<open>re.MULTILINE\<close>) holds at the start and after a newline; otherwise
  the first branch needs a whitespace character here.  The third branch is tried last.
\<close>

definition FUNCTION_PATTERN_at :: "char option \<Rightarrow> string \<Rightarrow> string option" where
  "FUNCTION_PATTERN_at prev s =
     (case (if prev = None \<or> prev = Some NL then declared_function s else None) of
        Some w \<Rightarrow> Some w
      | None \<Rightarrow>
          (case (case s of [] \<Rightarrow> None | c # r \<Rightarrow> if is_space c then declared_function r else None) of
             Some w \<Rightarrow> Some w
           | None \<Rightarrow> method_shorthand s))"

text \<open>\<^verbatim>\<open>FUNCTION_PATTERN.search(line)\<close> followed by
  \<^verbatim>\<open>match.group(1) or match.group(2) or match.group(3) or "<anonymous>"\<close>: a group that
  took part in the match is not empty, so the name is that group, at the leftmost
  position where the pattern matches.\<close>

fun FUNCTION_PATTERN_search :: "char option \<Rightarrow> string \<Rightarrow> string option" where
  "FUNCTION_PATTERN_search prev [] = FUNCTION_PATTERN_at prev []"
| "FUNCTION_PATTERN_search prev (c # cs) =
     (case FUNCTION_PATTERN_at prev (c # cs) of
        Some w \<Rightarrow> Some w
      | None \<Rightarrow> FUNCTION_PATTERN_search (Some c) cs)"

fun brace_depth :: "int \<Rightarrow> string \<Rightarrow> int" where
  "brace_depth depth [] = depth"
| "brace_depth depth (ch # rest) =
     brace_depth (if ch = CHR ''{'' then depth + 1 else if ch = CHR ''}'' then depth - 1 else depth) rest"

text \<open>The loop over \<open>j\<close>: the index of the first line after line \<open>i\<close> at whose end the
  depth is not positive.\<close>

fun find_end :: "int \<Rightarrow> nat \<Rightarrow> nat \<Rightarrow> string list \<Rightarrow> nat option" where
  "find_end depth i j [] = None"
| "find_end depth i j (l # ls) =
     (let d = brace_depth depth l
      in if d \<le> 0 \<and> j > i then Some j else find_end d i (j + 1) ls)"

fun function_spans_from :: "nat \<Rightarrow> string list \<Rightarrow> (string \<times> int \<times> int) list" where
  "function_spans_from i [] = []"
| "function_spans_from i (line # rest) =
     (case FUNCTION_PATTERN_search None line of
        None \<Rightarrow> []
      | Some nm \<Rightarrow>
          if CHR ''{'' \<in> set line then
            (case find_end 0 i i (line # rest) of
               None \<Rightarrow> []
             | Some j \<Rightarrow> [(nm, int i + 1, int j + 1)])
          else [])
     @ function_spans_from (i + 1) rest"

definition find_function_spans :: "string list \<Rightarrow> (string \<times> int \<times> int) list" where
  "find_function_spans lines = function_spans_from 0 lines"

subsection \<open>Stripping strings and comments\<close>

text \<open>
  The first substitution, \<^verbatim>\<open>(["\'])(?:(?!\1|\\).|\\.)*\1\<close>.  After the opening quote
  \<open>q\<close> the loop reads, one at a time, a character that is neither \<open>q\<close>, a backslash nor
  a newline, or a backslash and a character that is not a newline; the two cases exclude
  each other, and the loop stops at a character that starts neither.  The match succeeds
  when that character is \<open>q\<close>; \<open>closing\<close> returns what follows it.
\<close>

fun closing :: "char \<Rightarrow> string \<Rightarrow> string option" where
  "closing q [] = None"
| "closing q [c] = (if c = q then Some [] else None)"
| "closing q (c # e # r) =
     (if c = q then Some (e # r)
      else if c = backslash then (if e = NL then None else closing q r)
      else if c = NL then None
      else closing q (e # r))"

text \<open>The second substitution, for \<^verbatim>\<open>`(?:[^`\\]|\\.)*`\<close>: here a newline may stand
  inside, but not after a backslash.\<close>

fun closing_backtick :: "string \<Rightarrow> string option" where
  "closing_backtick [] = None"
| "closing_backtick [c] = (if c = backtick then Some [] else None)"
| "closing_backtick (c # e # r) =
     (if c = backtick then Some (e # r)
      else if c = backslash then (if e = NL then None else closing_backtick r)
      else closing_backtick (e # r))"

text \<open>\<^verbatim>\<open>re.sub\<close> with the replacement \<^verbatim>\<open>""\<close> (two double quotes): where the pattern
  matches, the match is replaced and the search goes on after it; elsewhere the character
  is kept.  \<open>skip\<close> counts the characters still inside the last match.\<close>

fun sub_quoted :: "nat \<Rightarrow> string \<Rightarrow> string" where
  "sub_quoted skip [] = []"
| "sub_quoted skip (c # cs) =
     (if skip > 0 then sub_quoted (skip - 1) cs
      else if is_quote c then
        (case closing c cs of
           Some rest \<Rightarrow> [dquote, dquote] @ sub_quoted (length cs - length rest) cs
         | None \<Rightarrow> c # sub_quoted 0 cs)
      else c # sub_quoted 0 cs)"

fun sub_template :: "nat \<Rightarrow> string \<Rightarrow> string" where
  "sub_template skip [] = []"
| "sub_template skip (c # cs) =
     (if skip > 0 then sub_template (skip - 1) cs
      else if c = backtick then
        (case closing_backtick cs of
           Some rest \<Rightarrow> [dquote, dquote] @ sub_template (length cs - length rest) cs
         | None \<Rightarrow> c # sub_template 0 cs)
      else c # sub_template 0 cs)"

text \<open>The third substitution, \<^verbatim>\<open>//.*$\<close> replaced by nothing: from two slashes to the
  next newline, when \<^verbatim>\<open>$\<close> holds there.  Nothing can match after such a match.\<close>

fun sub_comment :: "string \<Rightarrow> string" where
  "sub_comment [] = []"
| "sub_comment (c # cs) =
     (if c = CHR ''/'' \<and> startswith cs ''/'' \<and> at_dollar (dropWhile (\<lambda>x. x \<noteq> NL) (tl cs))
      then dropWhile (\<lambda>x. x \<noteq> NL) (tl cs)
      else c # sub_comment cs)"

definition strip_comments_and_strings :: "string \<Rightarrow> string" where
  "strip_comments_and_strings line = sub_comment (sub_template 0 (sub_quoted 0 line))"

subsection \<open>The patterns of the line rules\<close>

text \<open>\<^verbatim>\<open>CONSOLE_LOG_PATTERN = \bconsole\.(log|debug|info|warn|error|trace)\s*\(\<close>, with
  \<^verbatim>\<open>search\<close>.\<close>

definition console_call :: "string \<Rightarrow> bool" where
  "console_call s =
     (case lit ''console.'' s of
        None \<Rightarrow> False
      | Some r \<Rightarrow>
          list_ex (\<lambda>m. case lit m r of
                          None \<Rightarrow> False
                        | Some r2 \<Rightarrow> startswith (dropWhile is_space r2) ''('')
            [''log'', ''debug'', ''info'', ''warn'', ''error'', ''trace''])"

definition at_word_start :: "char option \<Rightarrow> bool" where
  "at_word_start prev = (case prev of None \<Rightarrow> True | Some p \<Rightarrow> \<not> is_word p)"

fun CONSOLE_LOG_PATTERN_search :: "char option \<Rightarrow> string \<Rightarrow> bool" where
  "CONSOLE_LOG_PATTERN_search prev [] = False"
| "CONSOLE_LOG_PATTERN_search prev (c # cs) =
     ((at_word_start prev \<and> console_call (c # cs)) \<or> CONSOLE_LOG_PATTERN_search (Some c) cs)"

text \<open>\<^verbatim>\<open>TODO_PATTERN = \b(TODO|FIXME|HACK|XXX)\b\<close> with \<^verbatim>\<open>re.IGNORECASE\<close>;
  \<^verbatim>\<open>findall\<close> returns the text of the group for each match.\<close>

definition TODO_PATTERN_findall :: "string \<Rightarrow> string list" where
  "TODO_PATTERN_findall s = word_finditer [''TODO'', ''FIXME'', ''HACK'', ''XXX''] 0 None s"

definition upper_char :: "char \<Rightarrow> char" where
  "upper_char c = (if is_lower c then char_of (code c - 32) else c)"

definition upper :: "string \<Rightarrow> string" where
  "upper s = map upper_char s"

text \<open>
  \<^verbatim>\<open>MAGIC_NUMBER_PATTERN = (?<![.\w])-?(?:[2-9]\d{1,}|\d+\.\d+)(?![.\w])\<close>.  \<open>number_at\<close>
  reads the digits (after the sign, if any) and returns the text matched.  Both runs of
  digits are the longest ones: after a shorter run the next character is a digit, which
  is neither the dot nor an end that the lookahead accepts.
\<close>

definition not_dot_word :: "string \<Rightarrow> bool" where
  "not_dot_word s = (case s of [] \<Rightarrow> True | c # r \<Rightarrow> \<not> (c = CHR ''.'' \<or> is_word c))"

definition digits_at :: "string \<Rightarrow> string option" where
  "digits_at d =
     (let run = takeWhile is_digit d;
          after = drop (length run) d
      in if run \<noteq> [] \<and> 50 \<le> code (hd run) \<and> length run \<ge> 2 \<and> not_dot_word after then Some run
         else if run \<noteq> [] \<and> startswith after ''.'' then
           (let run2 = takeWhile is_digit (tl after)
            in if run2 \<noteq> [] \<and> not_dot_word (drop (length run2) (tl after))
               then Some (run @ ''.'' @ run2) else None)
         else None)"

definition number_at :: "string \<Rightarrow> string option" where
  "number_at s =
     (if startswith s ''-'' then
        (case digits_at (tl s) of None \<Rightarrow> None | Some m \<Rightarrow> Some (CHR ''-'' # m))
      else digits_at s)"

text \<open>\<^verbatim>\<open>finditer\<close>: each match with the text before it (\<^verbatim>\<open>stripped[:match.start()]\<close>).\<close>

fun MAGIC_NUMBER_PATTERN_finditer :: "nat \<Rightarrow> string \<Rightarrow> string \<Rightarrow> (string \<times> string) list" where
  "MAGIC_NUMBER_PATTERN_finditer skip pre [] = []"
| "MAGIC_NUMBER_PATTERN_finditer skip pre (c # cs) =
     (if skip > 0 then MAGIC_NUMBER_PATTERN_finditer (skip - 1) (pre @ [c]) cs
      else if pre = [] \<or> \<not> (last pre = CHR ''.'' \<or> is_word (last pre)) then
        (case number_at (c # cs) of
           Some m \<Rightarrow> (pre, m) # MAGIC_NUMBER_PATTERN_finditer (length m - 1) (pre @ [c]) cs
         | None \<Rightarrow> MAGIC_NUMBER_PATTERN_finditer 0 (pre @ [c]) cs)
      else MAGIC_NUMBER_PATTERN_finditer 0 (pre @ [c]) cs)"

text \<open>\<^verbatim>\<open>SAFE_NUMBER_CONTEXTS\<close>, with \<^verbatim>\<open>re.IGNORECASE\<close> and \<^verbatim>\<open>search\<close>: one of the words,
  whitespace, a colon or an equals sign, and whitespace up to the end.\<close>

definition SAFE_WORDS :: "string list" where
  "SAFE_WORDS = [''port'', ''timeout'', ''delay'', ''width'', ''height'', ''size'', ''length'',
     ''index'', ''count'', ''max'', ''min'', ''limit'', ''version'', ''STATUS'', ''CODE'',
     ''padding'', ''margin'', ''offset'', ''duration'']"

definition safe_context_at :: "string \<Rightarrow> bool" where
  "safe_context_at s =
     list_ex (\<lambda>w. istartswith s w \<and>
                (case dropWhile is_space (drop (length w) s) of
                   [] \<Rightarrow> False
                 | c # r \<Rightarrow> (c = CHR '':'' \<or> c = CHR ''='') \<and> dropWhile is_space r = []))
       SAFE_WORDS"

fun SAFE_NUMBER_CONTEXTS_search :: "string \<Rightarrow> bool" where
  "SAFE_NUMBER_CONTEXTS_search [] = False"
| "SAFE_NUMBER_CONTEXTS_search (c # cs) =
     (safe_context_at (c # cs) \<or> SAFE_NUMBER_CONTEXTS_search cs)"

text \<open>\<^verbatim>\<open>re.search(r"(?:import|require|from)\s", raw_line)\<close>.\<close>

definition import_word_at :: "string \<Rightarrow> bool" where
  "import_word_at s =
     list_ex (\<lambda>w. case lit w s of None \<Rightarrow> False | Some r \<Rightarrow> spaces1 r \<noteq> None)
       [''import'', ''require'', ''from'']"

fun import_search :: "string \<Rightarrow> bool" where
  "import_search [] = False"
| "import_search (c # cs) = (import_word_at (c # cs) \<or> import_search cs)"

text \<open>\<^verbatim>\<open>EMPTY_CATCH_PATTERN = catch\s*\([^)]*\)\s*\{\s*\}\<close>: what is left after a match
  at the start of the string.\<close>

definition empty_catch_at :: "string \<Rightarrow> string option" where
  "empty_catch_at s =
     (case lit ''catch'' s of
        None \<Rightarrow> None
      | Some r \<Rightarrow>
          (case parens (dropWhile is_space r) of
             None \<Rightarrow> None
           | Some r2 \<Rightarrow>
               (case lit ''{'' (dropWhile is_space r2) of
                  None \<Rightarrow> None
                | Some r3 \<Rightarrow> lit ''}'' (dropWhile is_space r3))))"

text \<open>\<^verbatim>\<open>finditer\<close> over the whole content; for each match the number
  \<^verbatim>\<open>content[:match.start()].count("\n") + 1\<close>, kept in \<open>line_num\<close> as the text is read.\<close>

fun EMPTY_CATCH_PATTERN_lines :: "nat \<Rightarrow> int \<Rightarrow> string \<Rightarrow> int list" where
  "EMPTY_CATCH_PATTERN_lines skip line_num [] = []"
| "EMPTY_CATCH_PATTERN_lines skip line_num (c # cs) =
     (let next_num = (if c = NL then line_num + 1 else line_num)
      in if skip > 0 then EMPTY_CATCH_PATTERN_lines (skip - 1) next_num cs
         else
           (case empty_catch_at (c # cs) of
              Some rest \<Rightarrow> line_num # EMPTY_CATCH_PATTERN_lines (length cs - length rest) next_num cs
            | None \<Rightarrow> EMPTY_CATCH_PATTERN_lines 0 next_num cs))"

subsection \<open>Checking a file\<close>

text \<open>\<^verbatim>\<open>content.splitlines()\<close>, for the line boundaries of ASCII text: \<^verbatim>\<open>\n\<close>,
  \<^verbatim>\<open>\r\<close>, \<^verbatim>\<open>\r\n\<close>, \<^verbatim>\<open>\v\<close>, \<^verbatim>\<open>\f\<close> and the separators 0x1C to 0x1E.\<close>

definition is_linebreak :: "char \<Rightarrow> bool" where
  "is_linebreak c = ((10 \<le> code c \<and> code c \<le> 13) \<or> (28 \<le> code c \<and> code c \<le> 30))"

fun splitlines_from :: "string \<Rightarrow> string \<Rightarrow> string list" where
  "splitlines_from cur [] = (if cur = [] then [] else [cur])"
| "splitlines_from cur [c] = (if is_linebreak c then [cur] else [cur @ [c]])"
| "splitlines_from cur (c # d # cs) =
     (if code c = 13 \<and> d = NL then cur # splitlines_from [] cs
      else if is_linebreak c then cur # splitlines_from [] (d # cs)
      else splitlines_from (cur @ [c]) (d # cs))"

definition splitlines :: "string \<Rightarrow> string list" where
  "splitlines content = splitlines_from [] content"

text \<open>\<^verbatim>\<open>sub in s\<close> for strings.\<close>

fun contains :: "string \<Rightarrow> string \<Rightarrow> bool" where
  "contains sub [] = (sub = [])"
| "contains sub (c # cs) = (startswith (c # cs) sub \<or> contains sub cs)"

text \<open>The rules of the loop over the lines, each as the issues it appends for line
  \<open>i\<close>.\<close>

definition todo_issues :: "int \<Rightarrow> string \<Rightarrow> ReviewIssue list" where
  "todo_issues i raw_line =
     map (\<lambda>tag. review_issue ''todo-fixme'' Info i (''Found '' @ upper tag @ '' comment''))
       (TODO_PATTERN_findall raw_line)"

definition console_issues :: "int \<Rightarrow> string \<Rightarrow> ReviewIssue list" where
  "console_issues i stripped =
     (if CONSOLE_LOG_PATTERN_search None stripped then
        [review_issue ''console-log'' Warning i ''console.log/debug/warn/error left in code'']
      else [])"

fun max_brace_depth :: "int \<Rightarrow> int \<Rightarrow> string \<Rightarrow> int" where
  "max_brace_depth depth max_depth [] = max_depth"
| "max_brace_depth depth max_depth (ch # rest) =
     (if ch = CHR ''{'' then max_brace_depth (depth + 1) (max max_depth (depth + 1)) rest
      else if ch = CHR ''}'' then max_brace_depth (depth - 1) max_depth rest
      else max_brace_depth depth max_depth rest)"

definition nesting_issues :: "int \<Rightarrow> string \<Rightarrow> ReviewIssue list" where
  "nesting_issues i stripped =
     (let max_depth = max_brace_depth 0 0 stripped
      in if max_depth > 3 then
           [review_issue ''deep-nesting'' Warning i
              (''Line has '' @ show_int max_depth @ '' levels of nesting (threshold: 3)'')]
         else [])"

definition magic_issues :: "int \<Rightarrow> string \<Rightarrow> string \<Rightarrow> ReviewIssue list" where
  "magic_issues i stripped raw_line =
     concat (map (\<lambda>(pre, m).
               if SAFE_NUMBER_CONTEXTS_search pre then []
               else if import_search raw_line then []
               else [review_issue ''magic-number'' Info i (''Magic number: '' @ m)])
       (MAGIC_NUMBER_PATTERN_finditer 0 [] stripped))"

definition long_line_issues :: "int \<Rightarrow> string \<Rightarrow> ReviewIssue list" where
  "long_line_issues i raw_line =
     (if length raw_line > 120 then
        [review_issue ''long-line'' Info i
           (''Line is '' @ show_nat (length raw_line) @ '' characters (threshold: 120)'')]
      else [])"

definition line_issues :: "int \<Rightarrow> string \<Rightarrow> ReviewIssue list" where
  "line_issues i raw_line =
     (let stripped = strip_comments_and_strings raw_line
      in todo_issues i raw_line @ console_issues i stripped @ nesting_issues i stripped
         @ magic_issues i stripped raw_line @ long_line_issues i raw_line)"

fun lines_loop :: "int \<Rightarrow> bool \<Rightarrow> string list \<Rightarrow> ReviewIssue list" where
  "lines_loop i in_block_comment [] = []"
| "lines_loop i in_block_comment (raw_line # rest) =
     (if contains ''/*'' raw_line \<and> \<not> contains ''*/'' raw_line then lines_loop (i + 1) True rest
      else if in_block_comment then
        lines_loop (i + 1) (if contains ''*/'' raw_line then False else in_block_comment) rest
      else line_issues i raw_line @ lines_loop (i + 1) in_block_comment rest)"

definition file_length_issues :: "string list \<Rightarrow> ReviewIssue list" where
  "file_length_issues lines =
     (if length lines > 300 then
        [review_issue ''file-length'' Warning 1
           (''File has '' @ show_nat (length lines) @ '' lines (threshold: 300)'')]
      else [])"

definition long_function_issue :: "string \<times> int \<times> int \<Rightarrow> ReviewIssue list" where
  "long_function_issue span =
     (case span of (nm, start, end_line) \<Rightarrow>
        let len = end_line - start + 1
        in if len > 50 then
             [review_issue ''long-function'' Warning start
                (''Function '' @ quoted nm @ '' is '' @ show_int len @ '' lines (threshold: 50)'')]
           else [])"

definition empty_catch_issues :: "string \<Rightarrow> ReviewIssue list" where
  "empty_catch_issues content =
     map (\<lambda>line_num. review_issue ''empty-catch'' Warning line_num
            (''Empty catch block '' @ [CHR 0xE2, CHR 0x80, CHR 0x94] @ '' errors are silently swallowed''))
       (EMPTY_CATCH_PATTERN_lines 0 1 content)"

text \<open>\<^verbatim>\<open>check_file\<close> for a file that exists, with its text; the issues are sorted by
  line, and the sort is stable.\<close>

definition check_content :: "string \<Rightarrow> string \<Rightarrow> ReviewReport" where
  "check_content filepath content =
     (let lines = splitlines content;
          found = file_length_issues lines
                  @ concat (map long_function_issue (find_function_spans lines))
                  @ lines_loop 1 False lines
                  @ empty_catch_issues content
      in \<lparr>r_file = filepath, r_total_lines = length lines, r_issues = sort_key r_line found\<rparr>)"

text \<open>
  \<^verbatim>\<open>main\<close>, as the exit status of the process.  \<open>argv\<close> is \<^verbatim>\<open>sys.argv\<close>, and \<open>read\<close>
  gives what the file system holds for a path.  When \<^verbatim>\<open>path.exists()\<close> is false
  \<^verbatim>\<open>check_file\<close> ends the process with status 1; an \<^verbatim>\<open>OSError\<close> of \<^verbatim>\<open>read_text\<close> has
  no handler and ends the process with status 1 as well.
\<close>

definition review_checklist_main :: "string list \<Rightarrow> (string \<Rightarrow> file_state) \<Rightarrow> int" where
  "review_checklist_main argv read =
     (if length argv < 2 then 1
      else
        (case read (argv ! 1) of
           Absent \<Rightarrow> 1
         | Unreadable exc \<Rightarrow> 1
         | Holds content \<Rightarrow>
             let report = check_content (argv ! 1) content;
                 warning_count = length (filter (\<lambda>i. r_severity i = Warning) (r_issues report))
             in (if warning_count > 0 then 1 else 0)))"

section \<open>Properties of the quality gate\<close>

text \<open>What a property reads of an issue: its line, its category and its severity; the
  rank of an import record; the parameters the type-hint rule reports.\<close>

definition summary :: "Issue \<Rightarrow> int \<times> string \<times> severity" where
  "summary i = (i_line i, i_category i, i_severity i)"

definition rank :: "int \<times> import_group \<times> string \<Rightarrow> int" where
  "rank r = group_order (fst (snd r))"

definition unannotated :: "py_arg \<Rightarrow> bool" where
  "unannotated x = (arg_name x \<noteq> ''self'' \<and> arg_name x \<noteq> ''cls'' \<and> annotation x = None)"

text \<open>The import-ordering rule as the specification words it: an import is flagged when
  its rank is lower than the highest rank seen among the imports before it.\<close>

fun spec_import_order_lines :: "int \<Rightarrow> (int \<times> import_group \<times> string) list \<Rightarrow> int list" where
  "spec_import_order_lines highest [] = []"
| "spec_import_order_lines highest ((l, g, n) # rest) =
     (if group_order g < highest then [l] else []) @
     spec_import_order_lines (max highest (group_order g)) rest"

text \<open>The modules of the examples.\<close>

definition relative_os_module :: Module where
  "relative_os_module =
     \<lparr>m_docstring = Some ''doc'',
      m_body = [Import 1 [''os.path'', ''numpy''], ImportFrom 2 (Some ''os'') 1,
                ImportFrom 3 (Some ''json'') 0, ImportFrom 4 None 1]\<rparr>"

definition ordered_imports :: Module where
  "ordered_imports =
     \<lparr>m_docstring = Some ''doc'',
      m_body = [Import 1 [''os''], Import 2 [''sys''], Import 3 [''requests''],
                ImportFrom 4 (Some ''helpers'') 1]\<rparr>"

definition third_party_first :: Module where
  "third_party_first =
     \<lparr>m_docstring = Some ''doc'',
      m_body = [Import 1 [''requests''], Import 2 [''os''], Import 3 [''sys''],
                ImportFrom 4 (Some ''helpers'') 1]\<rparr>"

definition local_first :: Module where
  "local_first =
     \<lparr>m_docstring = Some ''doc'',
      m_body = [ImportFrom 1 (Some ''helpers'') 1, Import 2 [''os''], Import 3 [''requests'']]\<rparr>"

definition only_other_parameter_kinds :: stmt where
  "only_other_parameter_kinds =
     FunctionDef False ''f''
       \<lparr>posonlyargs = [\<lparr>arg_name = ''a'', annotation = None\<rparr>],
        args = [\<lparr>arg_name = ''self'', annotation = None\<rparr>,
                \<lparr>arg_name = ''b'', annotation = Some ''int''\<rparr>],
        vararg = Some \<lparr>arg_name = ''rest'', annotation = None\<rparr>,
        kwonlyargs = [\<lparr>arg_name = ''c'', annotation = None\<rparr>],
        kwarg = Some \<lparr>arg_name = ''kw'', annotation = None\<rparr>\<rparr>
       (Some ''int'') 1 (Some 2) (Some ''doc'') []"

definition one_untyped_parameter :: arguments where
  "one_untyped_parameter =
     \<lparr>posonlyargs = [], args = [\<lparr>arg_name = ''x'', annotation = None\<rparr>],
      vararg = None, kwonlyargs = [], kwarg = None\<rparr>"

definition private_class_module :: Module where
  "private_class_module = \<lparr>m_docstring = Some ''doc'', m_body = [ClassDef ''_Helper'' 3 None []]\<rparr>"

subsection \<open>Import records and their order\<close>

lemma summary_simp [simp]: "summary \<lparr>i_file = f, i_line = l, i_category = c, i_message = m, i_severity = s\<rparr> = (l, c, s)"
  by (simp add: summary_def)

lemma rank_simp [simp]: "rank (l, g, n) = group_order g"
  by (simp add: rank_def)

lemma issues_add: "issues (add r f l c m s) = issues r @ [\<lparr>i_file = f, i_line = l, i_category = c, i_message = m, i_severity = s\<rparr>]"
  by (simp add: add_def)

lemma scan_imports_issues:
  "\<exists>new. issues (scan_imports fp prev imps r) = issues r @ new \<and>
     map summary new =
       map (\<lambda>p. (fst (fst p), ''imports'', Warning))
         (filter (\<lambda>p. rank (fst p) < snd p) (zip imps (prev # map rank imps)))"
proof (induction fp prev imps r rule: scan_imports.induct)
  case (1 fp prev r)
  then show ?case by simp
next
  case (2 fp prev l grp nm rest r)
  define r1 where "r1 = (if group_order grp < prev then add r fp l ''imports'' (import_message nm grp) Warning else r)"
  from 2[of "group_order grp" r1] obtain new where
    new: "issues (scan_imports fp (group_order grp) rest r1) = issues r1 @ new"
      "map summary new = map (\<lambda>p. (fst (fst p), ''imports'', Warning))
         (filter (\<lambda>p. rank (fst p) < snd p) (zip rest (group_order grp # map rank rest)))"
    by (auto simp: r1_def)
  show ?case
  proof (cases "group_order grp < prev")
    case True
    then show ?thesis using new
      by (intro exI[of _ "\<lparr>i_file = fp, i_line = l, i_category = ''imports'', i_message = import_message nm grp, i_severity = Warning\<rparr> # new"])
         (simp add: r1_def issues_add)
  next
    case False
    then show ?thesis using new
      by (intro exI[of _ new]) (simp add: r1_def)
  qed
qed

lemma rank_nonneg: "0 \<le> rank x"
  by (cases "fst (snd x)") (auto simp: rank_def)

lemma zip_shift:
  "map (\<lambda>p. (fst (fst p), ''imports'', Warning)) (filter (\<lambda>p. rank (fst p) < snd p) (zip imps (- 1 # map rank imps))) =
   map (\<lambda>p. (fst (fst p), ''imports'', Warning)) (filter (\<lambda>p. rank (fst p) < rank (snd p)) (zip (tl imps) imps))"
proof (cases imps)
  case Nil
  then show ?thesis by simp
next
  case (Cons x xs)
  have "map (\<lambda>p. (fst (fst p), ''imports'', Warning)) (filter (\<lambda>p. rank (fst p) < snd p) (zip ys (map rank zs))) =
     map (\<lambda>p. (fst (fst p), ''imports'', Warning)) (filter (\<lambda>p. rank (fst p) < rank (snd p)) (zip ys zs))" for ys zs
    by (induction ys zs rule: list_induct2') auto
  from this[of xs "x # xs"] Cons show ?thesis
    using rank_nonneg[of x] by (auto)
qed

lemma check_import_issues:
  "\<exists>new. issues (check_import_organization tree fp r) = issues r @ new \<and>
     map summary new =
       map (\<lambda>p. (fst (fst p), ''imports'', Warning))
         (filter (\<lambda>p. rank (fst p) < rank (snd p)) (zip (tl (collect_imports tree)) (collect_imports tree)))"
proof (cases "collect_imports tree = []")
  case True
  then show ?thesis by (simp add: check_import_organization_def)
next
  case False
  then show ?thesis
    using scan_imports_issues[of fp "- 1" "collect_imports tree" r]
    by (simp add: check_import_organization_def zip_shift)
qed

lemma sorted_no_out_of_order:
  "sorted (map rank imps) \<Longrightarrow> filter (\<lambda>p. rank (fst p) < rank (snd p)) (zip (tl imps) imps) = []"
proof (induction imps)
  case Nil
  then show ?case by simp
next
  case (Cons x xs)
  then show ?case by (cases xs) auto
qed

lemma zip_tl_append:
  "ys \<noteq> [] \<Longrightarrow> zip (tl (xs @ ys)) (xs @ ys) = (if xs = [] then [] else zip (tl xs) xs @ [(hd ys, last xs)]) @ zip (tl ys) ys"
  by (induction xs) (auto simp: neq_Nil_conv)

lemma one_descent:
  assumes "sorted (map rank X)" "sorted (map rank (s # D))" "X \<noteq> []" "rank s < rank (last X)"
  shows "filter (\<lambda>p. rank (fst p) < rank (snd p)) (zip (tl (X @ s # D)) (X @ s # D)) = [(s, last X)]"
proof -
  have "zip (tl (X @ s # D)) (X @ s # D) = zip (tl X) X @ [(s, last X)] @ zip (tl (s # D)) (s # D)"
    using zip_tl_append[of "s # D" X] assms(3) by simp
  then show ?thesis
    using sorted_no_out_of_order[OF assms(1)] sorted_no_out_of_order[OF assms(2)] assms(4)
    by simp
qed

lemma collect_ordered: "collect_imports ordered_imports =
    [(1, Stdlib, ''os''), (2, Stdlib, ''sys''), (3, ThirdParty, ''requests''), (4, Local, ''helpers'')]"
  by (simp add: collect_imports_def ordered_imports_def top_level_def STDLIB_TOP_LEVEL_def)

lemma collect_third_party_first: "collect_imports third_party_first =
    [(1, ThirdParty, ''requests''), (2, Stdlib, ''os''), (3, Stdlib, ''sys''), (4, Local, ''helpers'')]"
  by (simp add: collect_imports_def third_party_first_def top_level_def STDLIB_TOP_LEVEL_def)

lemma import_records_iff:
  "(l, g, n) \<in> set (import_records s) \<longleftrightarrow>
     (\<exists>ns. s = Import l ns \<and> n \<in> set ns \<and>
        g = (if top_level n \<in> set STDLIB_TOP_LEVEL then Stdlib else ThirdParty)) \<or>
     (\<exists>lv. s = ImportFrom l (Some n) lv \<and>
        g = (if 0 < lv then Local
             else if top_level n \<in> set STDLIB_TOP_LEVEL then Stdlib else ThirdParty))"
proof (cases s)
  case (ImportFrom l' m lv)
  then show ?thesis by (cases m) auto
qed auto

text \<open>
  Claim C9.  The import records of a module are exactly these: one for each name of a
  top-level \<^verbatim>\<open>import\<close>, classified \<open>Stdlib\<close> when the part of the name before its first
  dot is in \<open>STDLIB_TOP_LEVEL\<close> and \<open>ThirdParty\<close> otherwise; and one for each top-level
  \<^verbatim>\<open>from m import ...\<close> that names a module, classified \<open>Local\<close> when the import is
  relative (level above 0), whatever its name, and by the allow-list otherwise.
\<close>

theorem import_group_classification:
  "(l, g, n) \<in> set (collect_imports tree) \<longleftrightarrow>
     (\<exists>ns. Import l ns \<in> set (m_body tree) \<and> n \<in> set ns \<and>
        g = (if top_level n \<in> set STDLIB_TOP_LEVEL then Stdlib else ThirdParty)) \<or>
     (\<exists>lv. ImportFrom l (Some n) lv \<in> set (m_body tree) \<and>
        g = (if 0 < lv then Local
             else if top_level n \<in> set STDLIB_TOP_LEVEL then Stdlib else ThirdParty))"
proof -
  have "(l, g, n) \<in> set (collect_imports tree) \<longleftrightarrow>
          (\<exists>s \<in> set (m_body tree). (l, g, n) \<in> set (import_records s))"
    by (auto simp: collect_imports_def)
  also have "\<dots> \<longleftrightarrow>
     (\<exists>ns. Import l ns \<in> set (m_body tree) \<and> n \<in> set ns \<and>
        g = (if top_level n \<in> set STDLIB_TOP_LEVEL then Stdlib else ThirdParty)) \<or>
     (\<exists>lv. ImportFrom l (Some n) lv \<in> set (m_body tree) \<and>
        g = (if 0 < lv then Local
             else if top_level n \<in> set STDLIB_TOP_LEVEL then Stdlib else ThirdParty))"
    unfolding import_records_iff by blast
  finally show ?thesis .
qed

text \<open>The classification at work: \<^verbatim>\<open>from .os import x\<close> is local although \<^verbatim>\<open>os\<close> is
  on the allow-list, and a relative import without a module name leaves no record.\<close>

theorem import_group_classification_example:
  "collect_imports relative_os_module =
     [(1, Stdlib, ''os.path''), (1, ThirdParty, ''numpy''), (2, Local, ''os''), (3, Stdlib, ''json'')]
   \<and> (2, Local, ''os'') \<in> set (collect_imports relative_os_module)
   \<and> (2, Stdlib, ''os'') \<notin> set (collect_imports relative_os_module)"
proof -
  have ev: "collect_imports relative_os_module =
     [(1, Stdlib, ''os.path''), (1, ThirdParty, ''numpy''), (2, Local, ''os''), (3, Stdlib, ''json'')]"
    by (simp add: collect_imports_def relative_os_module_def top_level_def STDLIB_TOP_LEVEL_def)
  have "(2, Local, ''os'') \<in> set (collect_imports relative_os_module)"
    using import_group_classification[of 2 Local "''os''" relative_os_module]
    by (simp add: relative_os_module_def)
  moreover have "(2, Stdlib, ''os'') \<notin> set (collect_imports relative_os_module)"
    using import_group_classification[of 2 Stdlib "''os''" relative_os_module]
    by (simp add: relative_os_module_def)
  ultimately show ?thesis using ev by simp
qed

text \<open>
  Claim C2, as the code has it.  The import-ordering rule appends one warning of category
  \<^verbatim>\<open>imports\<close> for each import record whose rank is lower than the rank of the record
  immediately before it, at that import's line, and nothing else.  So records whose ranks
  never decrease yield no issue; and when a third-party import stands before a stdlib
  import \<open>s\<close>, after stdlib imports only and before records whose ranks never decrease
  from \<open>s\<close> on, the rule yields exactly one issue, at the line of \<open>s\<close>.
\<close>

theorem import_order_compares_with_previous_import:
  "(\<exists>new. issues (check_import_organization tree fp r) = issues r @ new \<and>
      map summary new =
        map (\<lambda>p. (fst (fst p), ''imports'', Warning))
          (filter (\<lambda>p. rank (fst p) < rank (snd p))
             (zip (tl (collect_imports tree)) (collect_imports tree))))
   \<and> (sorted (map rank (collect_imports tree)) \<longrightarrow>
        issues (check_import_organization tree fp r) = issues r)
   \<and> (collect_imports tree = A @ [t] @ [s] @ D \<and> list_all (\<lambda>a. fst (snd a) = Stdlib) A \<and>
        fst (snd t) = ThirdParty \<and> fst (snd s) = Stdlib \<and> sorted (map rank (s # D)) \<longrightarrow>
        (\<exists>i. issues (check_import_organization tree fp r) = issues r @ [i] \<and>
             summary i = (fst s, ''imports'', Warning)))"
proof (intro conjI impI)
  show 1: "\<exists>new. issues (check_import_organization tree fp r) = issues r @ new \<and>
      map summary new =
        map (\<lambda>p. (fst (fst p), ''imports'', Warning))
          (filter (\<lambda>p. rank (fst p) < rank (snd p))
             (zip (tl (collect_imports tree)) (collect_imports tree)))"
    by (rule check_import_issues)
  show "issues (check_import_organization tree fp r) = issues r"
    if "sorted (map rank (collect_imports tree))"
    using 1 sorted_no_out_of_order[OF that] by auto
  show "\<exists>i. issues (check_import_organization tree fp r) = issues r @ [i] \<and>
             summary i = (fst s, ''imports'', Warning)"
    if h: "collect_imports tree = A @ [t] @ [s] @ D \<and> list_all (\<lambda>a. fst (snd a) = Stdlib) A \<and>
        fst (snd t) = ThirdParty \<and> fst (snd s) = Stdlib \<and> sorted (map rank (s # D))"
  proof -
    have rA: "\<forall>a \<in> set A. rank a = 0"
      using h by (auto simp: rank_def list_all_iff)
    have rt: "rank t = 1" and rs: "rank s = 0"
      using h by (auto simp: rank_def)
    have "sorted (map rank A)"
      using rA by (induction A) auto
    then have "sorted (map rank (A @ [t]))"
      using rA rt by (auto simp: sorted_append)
    from one_descent[OF this, of s D] h rt rs
    have "filter (\<lambda>p. rank (fst p) < rank (snd p))
             (zip (tl (collect_imports tree)) (collect_imports tree)) = [(s, t)]"
      by simp
    with 1 show ?thesis by auto
  qed
qed

text \<open>The order stdlib, stdlib, third-party, local yields no issue; with the third-party
  import moved to the front, the one issue is at line 2, the first stdlib import.\<close>

theorem import_order_examples:
  "issues (check_import_organization ordered_imports ''m.py'' new_Report) = []
   \<and> (\<exists>i. issues (check_import_organization third_party_first ''m.py'' new_Report) = [i] \<and>
          summary i = (2, ''imports'', Warning))"
proof -
  have a: "issues (check_import_organization ordered_imports ''m.py'' new_Report) = []"
    using import_order_compares_with_previous_import[of ordered_imports "''m.py''" new_Report]
    by (simp add: collect_ordered new_Report_def)
  have b: "\<exists>i. issues (check_import_organization third_party_first ''m.py'' new_Report) = [i] \<and>
          summary i = (2, ''imports'', Warning)"
    using import_order_compares_with_previous_import[of third_party_first "''m.py''" new_Report
        "[]" "(1, ThirdParty, ''requests'')" "(2, Stdlib, ''os'')"
        "[(3, Stdlib, ''sys''), (4, Local, ''helpers'')]"]
    by (simp add: collect_third_party_first new_Report_def)
  from a b show ?thesis by simp
qed

text \<open>The rule does not compare with the highest rank seen: after a local import, a
  stdlib import and then a third-party import, only the stdlib import (line 2) is
  flagged, where the wording of the specification flags lines 2 and 3.\<close>

theorem import_order_highest_rank_counterexample:
  "map i_line (issues (check_import_organization local_first ''m.py'' new_Report)) = [2]
   \<and> spec_import_order_lines (- 1) (collect_imports local_first) = [2, 3]"
  by (simp add: check_import_organization_def collect_imports_def local_first_def top_level_def
      STDLIB_TOP_LEVEL_def new_Report_def Let_def issues_add)

subsection \<open>Parameters, private names and classes\<close>

lemma fold_missing_hint_length:
  "length (issues (fold (missing_hint fp l nm) xs r)) = length (issues r) + length (filter unannotated xs)"
  by (induction xs arbitrary: r) (auto simp: missing_hint_def issues_add unannotated_def)

lemma fold_missing_hint_counts:
  "functions_checked (fold (missing_hint fp l nm) xs r) = functions_checked r"
  by (induction xs arbitrary: r) (auto simp: missing_hint_def add_def)

text \<open>
  Claim C10.  The type-hint rule reads only \<^verbatim>\<open>node.args.args\<close>: replacing the
  positional-only parameters, \<^verbatim>\<open>*args\<close>, the keyword-only parameters and \<^verbatim>\<open>**kwargs\<close> of
  a function by any others leaves its result unchanged; a function with no plain
  positional parameter and a return annotation gets no issue; and the number of issues of
  a function that is checked is the number of its plain positional parameters other than
  \<^verbatim>\<open>self\<close> and \<^verbatim>\<open>cls\<close> that have no annotation, plus one for a missing return annotation
  (which \<^verbatim>\<open>__init__\<close> does not need).
\<close>

theorem type_hints_read_plain_positional_parameters_only:
  "check_type_hints_node fp
       (FunctionDef a nm (ar\<lparr>posonlyargs := p, vararg := v, kwonlyargs := k, kwarg := w\<rparr>) ret l e d b) r
     = check_type_hints_node fp (FunctionDef a nm ar ret l e d b) r
   \<and> issues (check_type_hints_node fp
       (FunctionDef a nm \<lparr>posonlyargs = p, args = [], vararg = v, kwonlyargs = k, kwarg = w\<rparr>
          (Some t) l e d b) r) = issues r
   \<and> length (issues (check_type_hints_node fp (FunctionDef a nm ar ret l e d b) r)) =
       length (issues r) +
       (if startswith nm ''_'' \<and> nm \<noteq> ''__init__'' then 0
        else length (filter unannotated (args ar)) +
             (if nm \<noteq> ''__init__'' \<and> ret = None then 1 else 0))"
  by (simp add: Let_def fold_missing_hint_length issues_add)

text \<open>A function whose positional-only, keyword-only, \<^verbatim>\<open>*\<close> and \<^verbatim>\<open>**\<close> parameters are all
  unannotated, and whose plain parameters are \<^verbatim>\<open>self\<close> and an annotated one: no issue.\<close>

theorem type_hints_other_parameter_kinds_example:
  "length (issues (check_type_hints_node ''m.py'' only_other_parameter_kinds new_Report)) = 0"
  using type_hints_read_plain_positional_parameters_only[where fp = "''m.py''" and a = False
      and nm = "''f''" and ret = "Some ''int''" and l = 1 and e = "Some 2" and d = "Some ''doc''"
      and b = "[]" and r = new_Report and ar =
      "\<lparr>posonlyargs = [\<lparr>arg_name = ''a'', annotation = None\<rparr>],
        args = [\<lparr>arg_name = ''self'', annotation = None\<rparr>,
                \<lparr>arg_name = ''b'', annotation = Some ''int''\<rparr>],
        vararg = Some \<lparr>arg_name = ''rest'', annotation = None\<rparr>,
        kwonlyargs = [\<lparr>arg_name = ''c'', annotation = None\<rparr>],
        kwarg = Some \<lparr>arg_name = ''kw'', annotation = None\<rparr>\<rparr>"]
  unfolding only_other_parameter_kinds_def
  by (simp add: unannotated_def new_Report_def startswith_def)

text \<open>
  Claim C4, as the code has it.  For a function whose name starts with an underscore and
  is not \<^verbatim>\<open>__init__\<close>, the type-hint rule and the docstring rule leave the report as it
  was.  \<^verbatim>\<open>__init__\<close> is checked by both: one type-hint issue for each unannotated plain
  parameter other than \<^verbatim>\<open>self\<close> and \<^verbatim>\<open>cls\<close>, and a docstring warning when it has no
  docstring.  A class without a docstring gets the docstring warning whatever its name.
\<close>

theorem private_functions_exempt_every_class_checked:
  "(startswith nm ''_'' \<and> nm \<noteq> ''__init__'' \<longrightarrow>
      check_type_hints_node fp (FunctionDef a nm ar ret l e d b) r = r \<and>
      check_docstrings_node fp (FunctionDef a nm ar ret l e d b) r = r)
   \<and> length (issues (check_type_hints_node fp (FunctionDef a ''__init__'' ar ret l e d b) r)) =
       length (issues r) + length (filter unannotated (args ar))
   \<and> (no_docstring d \<longrightarrow>
        (\<exists>i. issues (check_docstrings_node fp (FunctionDef a ''__init__'' ar ret l e d b) r) = issues r @ [i] \<and>
            summary i = (l, ''docstrings'', Warning)))
   \<and> (no_docstring d \<longrightarrow>
        (\<exists>i. issues (check_docstrings_node fp (ClassDef nm l d b) r) = issues r @ [i] \<and>
            summary i = (l, ''docstrings'', Warning)))"
  by (simp add: Let_def fold_missing_hint_length issues_add)

text \<open>The private function \<^verbatim>\<open>_helper\<close> gets no issue, \<^verbatim>\<open>__init__\<close> gets both, and so
  does the class \<^verbatim>\<open>_Helper\<close> for its docstring.\<close>

theorem private_function_and_init_example:
  "check_type_hints_node ''m.py''
      (FunctionDef False ''_helper'' one_untyped_parameter None 1 (Some 2) None []) new_Report = new_Report
   \<and> check_docstrings_node ''m.py''
      (FunctionDef False ''_helper'' one_untyped_parameter None 1 (Some 2) None []) new_Report = new_Report
   \<and> length (issues (check_type_hints_node ''m.py''
      (FunctionDef False ''__init__'' one_untyped_parameter None 1 (Some 2) None []) new_Report)) = 1
   \<and> (\<exists>i. issues (check_docstrings_node ''m.py''
      (FunctionDef False ''__init__'' one_untyped_parameter None 1 (Some 2) None []) new_Report) = [i] \<and>
          summary i = (1, ''docstrings'', Warning))
   \<and> (\<exists>i. issues (check_docstrings_node ''m.py'' (ClassDef ''_Helper'' 1 None []) new_Report) = [i] \<and>
          summary i = (1, ''docstrings'', Warning))"
  using private_functions_exempt_every_class_checked[where nm = "''_helper''" and fp = "''m.py''"
      and a = False and ar = one_untyped_parameter and ret = None and l = 1 and e = "Some 2"
      and d = None and b = "[]" and r = new_Report]
    private_functions_exempt_every_class_checked[where nm = "''_Helper''" and fp = "''m.py''"
      and a = False and ar = one_untyped_parameter and ret = None and l = 1 and e = "Some 2"
      and d = None and b = "[]" and r = new_Report]
  by (simp add: startswith_def no_docstring_def new_Report_def one_untyped_parameter_def
      unannotated_def)

text \<open>A class with a private name is not exempt from the docstring rule: in a module
  that holds only the class \<^verbatim>\<open>_Helper\<close>, without a docstring, the rule reports it.\<close>

theorem private_class_is_flagged:
  "startswith ''_Helper'' ''_''
   \<and> issues (check_docstrings private_class_module ''m.py'' new_Report) =
       [\<lparr>i_file = ''m.py'', i_line = 3, i_category = ''docstrings'',
         i_message = ''Class '' @ quoted ''_Helper'' @ '' missing docstring'', i_severity = Warning\<rparr>]"
  by (simp add: startswith_def check_docstrings_def private_class_module_def walk_def
      no_docstring_def new_Report_def add_def)

section \<open>Properties of the markdown validator\<close>

text \<open>An issue that does not report the link target \<open>target\<close> as broken, and the document
  of the example.\<close>

definition not_about :: "string \<Rightarrow> DocIssue \<Rightarrow> bool" where
  "not_about target i = (\<not> (d_category i = ''broken-link'' \<and> d_message i = broken_link_message target))"

definition titled_document :: string where
  "titled_document = ''# My Title!'' @ [NL] @ ''See [the title](#my-title).'' @ [NL]"

subsection \<open>Links to the slug of a heading\<close>

lemma code_char_of_small: "n < 256 \<Longrightarrow> code (char_of n) = n"
  by (simp add: code_def)

lemma lower_char_idem: "lower_char (lower_char c) = lower_char c"
proof (cases "is_upper c")
  case True
  then have "code (char_of (code c + 32)) = code c + 32"
    by (intro code_char_of_small) (simp add: is_upper_def)
  with True have "\<not> is_upper (char_of (code c + 32))"
    by (simp add: is_upper_def)
  then show ?thesis by (simp add: lower_char_def)
next
  case False
  then show ?thesis by (simp add: lower_char_def)
qed

lemma lower_char_hyphen: "lower_char (CHR ''-'') = CHR ''-''"
  by (simp add: lower_char_def is_upper_def code_def)

lemma lower_fixed: "(\<And>c. c \<in> set s \<Longrightarrow> lower_char c = c) \<Longrightarrow> lower s = s"
  by (simp add: lower_def map_idI)

lemma set_hyphenate: "set (hyphenate b s) \<subseteq> insert (CHR ''-'') (set s)"
  by (induction b s rule: hyphenate.induct) auto

lemma lower_slugify_heading: "lower (slugify_heading t) = slugify_heading t"
proof (rule lower_fixed)
  fix c assume "c \<in> set (slugify_heading t)"
  then have "c = CHR ''-'' \<or> c \<in> set (lower (strip t))"
    using set_hyphenate[of False "filter (\<lambda>c. is_word c \<or> is_space c \<or> c = CHR ''-'') (lower (strip t))"]
    by (auto simp: slugify_heading_def Let_def)
  then show "lower_char c = c"
    by (auto simp: lower_def lower_char_idem lower_char_hyphen)
qed

lemma slug_in_heading_slugs: "h \<in> set hs \<Longrightarrow> slugify_heading (h_text h) \<in> set (heading_slugs hs lines)"
  by (auto simp: heading_slugs_def)

lemma check_link_slug:
  assumes "h \<in> set hs" "l_href lk = CHR ''#'' # slugify_heading (h_text h)"
  shows "check_link (heading_slugs hs lines) lk acc = acc"
  using assms slug_in_heading_slugs[OF assms(1), of lines]
  by (simp add: check_link_def startswith_def lower_slugify_heading)

lemma fold_check_link_append:
  "fold (check_link slugs) (xs @ ys) acc = fold (check_link slugs) ys (fold (check_link slugs) xs acc)"
  by simp


lemma broken_link_message_inj: "broken_link_message a = broken_link_message b \<Longrightarrow> a = b"
  by (simp add: broken_link_message_def quoted_def)

lemma other_doc_issue: "c \<noteq> ''broken-link'' \<Longrightarrow> not_about t (doc_issue l s c m)"
  by (simp add: not_about_def doc_issue_def)

lemma hierarchy_scan_other:
  "list_all (not_about t) acc \<Longrightarrow> list_all (not_about t) (hierarchy_scan p hs acc)"
  by (induction p hs acc rule: hierarchy_scan.induct) (simp_all add: other_doc_issue)

lemma validate_heading_hierarchy_other:
  "list_all (not_about t) acc \<Longrightarrow> list_all (not_about t) (validate_heading_hierarchy hs acc)"
  by (simp add: validate_heading_hierarchy_def hierarchy_scan_other other_doc_issue)


lemma empty_sections_loop_other:
  "list_all (not_about t) (snd res) \<Longrightarrow> list_all (not_about t) (snd (empty_sections_loop hs lines res))"
proof (induction hs lines res rule: empty_sections_loop.induct)
  case (1 lines result)
  then show ?case by simp
next
  case (2 h hs lines secs acc)
  show ?case
    apply (subst empty_sections_loop.simps)
    apply (simp only: Let_def)
    apply (rule "2.IH"[OF refl refl refl refl refl refl])
    using "2.prems" apply (simp add: other_doc_issue)
    done
qed

lemma check_code_block_other:
  "list_all (not_about t) acc \<Longrightarrow> list_all (not_about t) (check_code_block cb acc)"
  by (simp add: check_code_block_def other_doc_issue)

lemma validate_code_blocks_other:
  "list_all (not_about t) acc \<Longrightarrow> list_all (not_about t) (validate_code_blocks cbs acc)"
  unfolding validate_code_blocks_def
  by (induction cbs arbitrary: acc) (simp_all add: check_code_block_other)

lemma check_image_other:
  "list_all (not_about t) acc \<Longrightarrow> list_all (not_about t) (check_image img acc)"
  by (simp add: check_image_def other_doc_issue)

lemma validate_images_other:
  "list_all (not_about t) acc \<Longrightarrow> list_all (not_about t) (validate_images imgs acc)"
  unfolding validate_images_def
  by (induction imgs arbitrary: acc) (simp_all add: check_image_other)

lemma markers_loop_other:
  "list_all (not_about t) acc \<Longrightarrow> list_all (not_about t) (markers_loop i c lines acc)"
proof (induction i c lines acc rule: markers_loop.induct)
  case (1 i in_code acc)
  then show ?case by simp
next
  case (2 i in_code line rest acc)
  have new: "list_all (not_about t)
      (acc @ map (\<lambda>m. doc_issue i Info ''marker''
                 (''Found '' @ quoted m @ '' marker: '' @ take 80 (strip line)))
               (MARKER_PATTERN_finditer line))"
    using "2.prems" by (auto simp: list_all_iff intro!: other_doc_issue)
  show ?case
  proof (cases "startswith (strip line) fence")
    case True
    then show ?thesis using 2 by simp
  next
    case False
    show ?thesis
    proof (cases in_code)
      case True
      then show ?thesis using False 2 by simp
    next
      case f2: False
      from "2.IH"(3)[OF False f2 new] show ?thesis using False f2 by simp
    qed
  qed
qed


lemma fold_check_link_not_about:
  "t \<in> set slugs \<Longrightarrow> list_all (not_about t) acc \<Longrightarrow> list_all (not_about t) (fold (check_link slugs) lks acc)"
proof (induction lks arbitrary: acc)
  case Nil
  then show ?case by simp
next
  case (Cons lk lks)
  have "not_about t (doc_issue l Error ''broken-link'' (broken_link_message u))" if "u \<notin> set slugs" for l u
    using that Cons.prems(1) by (auto simp: not_about_def doc_issue_def dest: broken_link_message_inj)
  then have "list_all (not_about t) (check_link slugs lk acc)"
    using Cons.prems by (simp add: check_link_def Let_def)
  then show ?case using Cons by simp
qed

lemma validate_text_not_about:
  assumes "h \<in> set (fst (parse_document (split_on NL content)))"
  shows "list_all (not_about (slugify_heading (h_text h))) (v_issues (validate_text fp content))"
proof -
  define lines where "lines = split_on NL content"
  define t where "t = slugify_heading (h_text h)"
  obtain hs cbs imgs lks where p: "parse_document lines = (hs, cbs, imgs, lks)"
    by (cases "parse_document lines") auto
  obtain secs acc2 where e: "validate_empty_sections hs lines (validate_heading_hierarchy hs []) = (secs, acc2)"
    by (cases "validate_empty_sections hs lines (validate_heading_hierarchy hs [])") auto
  have h: "h \<in> set hs" using assms p by (simp add: lines_def)
  have "list_all (not_about t) (validate_heading_hierarchy hs [])"
    by (rule validate_heading_hierarchy_other) simp
  then have "list_all (not_about t) (snd (empty_sections_loop hs lines ([], validate_heading_hierarchy hs [])))"
    by (intro empty_sections_loop_other) simp
  then have "list_all (not_about t) acc2"
    using e by (simp add: validate_empty_sections_def)
  then have "list_all (not_about t) (validate_internal_links hs lks lines acc2)"
    unfolding validate_internal_links_def t_def
    by (intro fold_check_link_not_about slug_in_heading_slugs h)
  then have "list_all (not_about t)
      (validate_markers lines (validate_images imgs (validate_code_blocks cbs (validate_internal_links hs lks lines acc2))))"
    unfolding validate_markers_def
    by (intro markers_loop_other validate_images_other validate_code_blocks_other)
  moreover have "v_issues (validate_text fp content) =
      validate_markers lines (validate_images imgs (validate_code_blocks cbs (validate_internal_links hs lks lines acc2)))"
    using p e by (simp add: validate_text_def lines_def[symmetric] Let_def)
  ultimately show ?thesis by (simp add: t_def)
qed

lemma parse_titled_document:
  "parse_document (split_on NL titled_document) =
     ([\<lparr>h_level = 1, h_text = ''My Title!'', h_line = 1\<rparr>], [], [],
      [\<lparr>l_text = ''the title'', l_href = ''#my-title'', l_line = 2\<rparr>])"
  by code_simp

lemma slug_my_title: "slugify_heading ''My Title!'' = ''my-title''"
  by code_simp

text \<open>
  Claim C6.  The slug of a heading text is its stripped, lower-cased text without the
  characters that are neither word characters, whitespace nor hyphens, each run of
  whitespace replaced by one hyphen (\<open>slugify_heading\<close>).  A link whose target is
  \<^verbatim>\<open>#\<close> followed by the slug of a heading of the document is left alone by the link
  check; and for every text and every heading that parsing finds in it, no issue of the
  whole validation is a \<^verbatim>\<open>broken-link\<close> issue about the slug of that heading.
\<close>

theorem heading_slug_links_never_broken:
  "(h \<in> set hs \<and> l_href lk = CHR ''#'' # slugify_heading (h_text h) \<longrightarrow>
      check_link (heading_slugs hs lines) lk acc = acc)
   \<and> (h \<in> set (fst (parse_document (split_on NL content))) \<longrightarrow>
      list_all (not_about (slugify_heading (h_text h))) (v_issues (validate_text fp content)))"
  using check_link_slug validate_text_not_about by blast

text \<open>A document whose heading \<^verbatim>\<open>My Title!\<close> has the slug \<^verbatim>\<open>my-title\<close>, and a link to
  it.\<close>

theorem heading_slug_links_example:
  "\<lparr>h_level = 1, h_text = ''My Title!'', h_line = 1\<rparr>
       \<in> set (fst (parse_document (split_on NL titled_document)))
   \<and> slugify_heading ''My Title!'' = ''my-title''
   \<and> list_all (not_about ''my-title'') (v_issues (validate_text ''d.md'' titled_document))
   \<and> check_link
        (heading_slugs [\<lparr>h_level = 1, h_text = ''My Title!'', h_line = 1\<rparr>]
           (split_on NL titled_document))
        \<lparr>l_text = ''the title'', l_href = ''#my-title'', l_line = 2\<rparr> [] = []"
  using heading_slug_links_never_broken[where h = "\<lparr>h_level = 1, h_text = ''My Title!'', h_line = 1\<rparr>"
      and hs = "[\<lparr>h_level = 1, h_text = ''My Title!'', h_line = 1\<rparr>]"
      and lk = "\<lparr>l_text = ''the title'', l_href = ''#my-title'', l_line = 2\<rparr>"
      and lines = "split_on NL titled_document" and acc = "[]"
      and content = titled_document and fp = "''d.md''"]
  by (simp add: parse_titled_document slug_my_title)

section \<open>Properties of the review checklist and of the size rules\<close>






subsection \<open>Where the issues of a review come from\<close>






































section \<open>Verdicts and exit statuses\<close>


definition has :: "severity \<Rightarrow> Report \<Rightarrow> bool" where
  "has sev report = list_ex (\<lambda>i. i_severity i = sev) (issues report)"









definition plain_args :: doc_args where
  "plain_args = \<lparr>a_path = ''d.md'', a_json = False, a_recursive = False, a_fail_on_warnings = False\<rparr>"

definition skipped_level :: string where
  "skipped_level = ''# A'' @ [NL] @ ''### B''"

subsection \<open>The quality gate reports errors and warnings only\<close>


































lemma quality_gate_usage:
  "quality_gate_main argv collect load = 2 \<longleftrightarrow> length argv < 2 \<or> collect (argv ! 1) = []"
  by (simp add: quality_gate_main_def Let_def split: sum.split)

lemma quality_gate_run:
  "\<not> (length argv < 2 \<or> collect (argv ! 1) = []) \<Longrightarrow>
     quality_gate_main argv collect load =
       (case analyze_files load (collect (argv ! 1)) new_Report of
          Inl exc \<Rightarrow> 1
        | Inr report \<Rightarrow> (if passed report then 0 else 1))"
  by (simp add: quality_gate_main_def Let_def)

lemma exit_for_reports_errors:
  "list_ex (\<lambda>r. error_count r > 0) reports \<Longrightarrow> exit_for_reports a reports = 1"
proof -
  assume "list_ex (\<lambda>r. error_count r > 0) reports"
  then have "sum_list (map error_count reports) > 0"
    by (induction reports) auto
  then show ?thesis by (simp add: exit_for_reports_def Let_def)
qed

lemma skipped_level_errors:
  "map_sum id error_count (validate_document ''d.md'' (Holds skipped_level)) = Inr 1"
  by code_simp

lemma doc_validator_file:
  "validate_document (a_path a) (read (a_path a)) = Inr report \<Longrightarrow>
     doc_validator_main a IsFile read = exit_for_reports a [report]"
  by (simp add: doc_validator_main_def validate_and_exit_def)

lemma doc_validator_file_raises:
  "validate_document (a_path a) (read (a_path a)) = Inl exc \<Longrightarrow> doc_validator_main a IsFile read = 1"
  by (simp add: doc_validator_main_def validate_and_exit_def)




text \<open>
  Claim C8, as the code has it.  The quality gate exits with 2 exactly for its usage
  errors (no path argument, no Python file at the path), and with 0 or 1 otherwise; so 2
  is never the status of a failed run.  The markdown validator exits with 1 for a missing
  path, for a directory without markdown files and for a directory without
  \<^verbatim>\<open>--recursive\<close>, which is also its status for a document with an error and for a
  document whose reading raises; the review checklist exits with 1 for a missing
  argument, for a missing file and for a path whose reading raises, which is also its
  status for a report with a warning.
\<close>

theorem usage_errors_and_exit_codes:
  "(quality_gate_main argv collect load = 2 \<longleftrightarrow> length argv < 2 \<or> collect (argv ! 1) = [])
   \<and> (\<not> (length argv < 2 \<or> collect (argv ! 1) = []) \<longrightarrow>
        quality_gate_main argv collect load =
          (case analyze_files load (collect (argv ! 1)) new_Report of
             Inl exc \<Rightarrow> 1
           | Inr report \<Rightarrow> (if passed report then 0 else 1)))
   \<and> doc_validator_main a Missing read = 1
   \<and> doc_validator_main a (IsDir []) read = 1
   \<and> (\<not> a_recursive a \<longrightarrow> doc_validator_main a (IsDir found) read = 1)
   \<and> (validate_document (a_path a) (read (a_path a)) = Inr doc_report \<and> error_count doc_report > 0 \<longrightarrow>
        doc_validator_main a IsFile read = 1)
   \<and> (validate_document (a_path a) (read (a_path a)) = Inl exc \<longrightarrow>
        doc_validator_main a IsFile read = 1)
   \<and> (length argv < 2 \<longrightarrow> review_checklist_main argv read = 1)
   \<and> (read (argv ! 1) = Absent \<longrightarrow> review_checklist_main argv read = 1)
   \<and> (read (argv ! 1) = Unreadable exc \<longrightarrow> review_checklist_main argv read = 1)"
proof (intro conjI impI)
  show "quality_gate_main argv collect load = 2 \<longleftrightarrow> length argv < 2 \<or> collect (argv ! 1) = []"
    by (rule quality_gate_usage)
  show "quality_gate_main argv collect load =
          (case analyze_files load (collect (argv ! 1)) new_Report of
             Inl exc \<Rightarrow> 1
           | Inr report \<Rightarrow> (if passed report then 0 else 1))"
    if "\<not> (length argv < 2 \<or> collect (argv ! 1) = [])"
    using that by (rule quality_gate_run)
  show "doc_validator_main a Missing read = 1" by (simp add: doc_validator_main_def)
  show "doc_validator_main a (IsDir []) read = 1" by (simp add: doc_validator_main_def)
  show "doc_validator_main a (IsDir found) read = 1" if "\<not> a_recursive a"
    using that by (simp add: doc_validator_main_def)
  show "doc_validator_main a IsFile read = 1"
    if "validate_document (a_path a) (read (a_path a)) = Inr doc_report \<and> error_count doc_report > 0"
    using that exit_for_reports_errors[of "[doc_report]" a] doc_validator_file[of a read doc_report]
    by simp
  show "doc_validator_main a IsFile read = 1"
    if "validate_document (a_path a) (read (a_path a)) = Inl exc"
    using that by (rule doc_validator_file_raises)
  show "review_checklist_main argv read = 1" if "length argv < 2"
    using that by (simp add: review_checklist_main_def)
  show "review_checklist_main argv read = 1" if "read (argv ! 1) = Absent"
    using that by (simp add: review_checklist_main_def)
  show "review_checklist_main argv read = 1" if "read (argv ! 1) = Unreadable exc"
    using that by (simp add: review_checklist_main_def)
qed

text \<open>The three checkers on usage errors, on a file that fails, and on a path whose
  reading raises.\<close>

theorem usage_errors_examples:
  "quality_gate_main [''quality-gate.py''] (\<lambda>t. []) (\<lambda>f. CannotRead []) = 2
   \<and> quality_gate_main [''quality-gate.py'', ''src''] (\<lambda>t. []) (\<lambda>f. CannotRead []) = 2
   \<and> quality_gate_main [''quality-gate.py'', ''m.py''] (\<lambda>t. [''m.py''])
        (\<lambda>f. SyntaxError (Some 1) ''invalid syntax'') = 1
   \<and> doc_validator_main plain_args (IsDir [''a.md'']) (\<lambda>p. Absent) = 1
   \<and> doc_validator_main plain_args IsFile (\<lambda>p. Holds skipped_level) = 1
   \<and> doc_validator_main plain_args IsFile (\<lambda>p. Unreadable ''PermissionError'') = 1
   \<and> review_checklist_main [''review-checklist.py''] (\<lambda>p. Absent) = 1
   \<and> review_checklist_main [''review-checklist.py'', ''a.js''] (\<lambda>p. Absent) = 1
   \<and> review_checklist_main [''review-checklist.py'', ''src''] (\<lambda>p. Unreadable ''IsADirectoryError'') = 1"
proof -
  note t = usage_errors_and_exit_codes
  have 1: "quality_gate_main [''quality-gate.py''] (\<lambda>t. []) (\<lambda>f. CannotRead []) = 2"
    using t[where argv = "[''quality-gate.py'']" and collect = "\<lambda>t. []"
        and load = "\<lambda>f. CannotRead []", THEN conjunct1] by simp
  have 2: "quality_gate_main [''quality-gate.py'', ''src''] (\<lambda>t. []) (\<lambda>f. CannotRead []) = 2"
    using t[where argv = "[''quality-gate.py'', ''src'']" and collect = "\<lambda>t. []"
        and load = "\<lambda>f. CannotRead []", THEN conjunct1] by simp
  have 3: "quality_gate_main [''quality-gate.py'', ''m.py''] (\<lambda>t. [''m.py''])
        (\<lambda>f. SyntaxError (Some 1) ''invalid syntax'') = 1"
    using t[where argv = "[''quality-gate.py'', ''m.py'']" and collect = "\<lambda>t. [''m.py'']"
        and load = "\<lambda>f. SyntaxError (Some 1) ''invalid syntax''", THEN conjunct2, THEN conjunct1]
    by (simp add: new_Report_def passed_def add_def)
  have 4: "doc_validator_main plain_args (IsDir [''a.md'']) (\<lambda>p. Absent) = 1"
    using t[where a = plain_args and read = "\<lambda>p. Absent" and found = "[''a.md'']",
        THEN conjunct2, THEN conjunct2, THEN conjunct2, THEN conjunct2, THEN conjunct1]
    by (simp add: plain_args_def)
  have 5: "doc_validator_main plain_args IsFile (\<lambda>p. Holds skipped_level) = 1"
    using t[where a = plain_args and read = "\<lambda>p. Holds skipped_level"
        and doc_report = "validate_text ''d.md'' skipped_level",
        THEN conjunct2, THEN conjunct2, THEN conjunct2, THEN conjunct2, THEN conjunct2, THEN conjunct1]
      skipped_level_errors
    by (simp add: plain_args_def validate_document_def)
  have 6: "doc_validator_main plain_args IsFile (\<lambda>p. Unreadable ''PermissionError'') = 1"
    using t[where a = plain_args and read = "\<lambda>p. Unreadable ''PermissionError''"
        and exc = "''PermissionError''",
        THEN conjunct2, THEN conjunct2, THEN conjunct2, THEN conjunct2, THEN conjunct2,
        THEN conjunct2, THEN conjunct1]
    by (simp add: validate_document_def)
  have 7: "review_checklist_main [''review-checklist.py''] (\<lambda>p. Absent) = 1"
    using t[where argv = "[''review-checklist.py'']" and read = "\<lambda>p. Absent",
        THEN conjunct2, THEN conjunct2, THEN conjunct2, THEN conjunct2, THEN conjunct2,
        THEN conjunct2, THEN conjunct2, THEN conjunct1]
    by simp
  have 8: "review_checklist_main [''review-checklist.py'', ''a.js''] (\<lambda>p. Absent) = 1"
    using t[where argv = "[''review-checklist.py'', ''a.js'']" and read = "\<lambda>p. Absent",
        THEN conjunct2, THEN conjunct2, THEN conjunct2, THEN conjunct2, THEN conjunct2,
        THEN conjunct2, THEN conjunct2, THEN conjunct2, THEN conjunct1]
    by simp
  have 9: "review_checklist_main [''review-checklist.py'', ''src'']
        (\<lambda>p. Unreadable ''IsADirectoryError'') = 1"
    using t[where argv = "[''review-checklist.py'', ''src'']"
        and read = "\<lambda>p. Unreadable ''IsADirectoryError''" and exc = "''IsADirectoryError''",
        THEN conjunct2, THEN conjunct2, THEN conjunct2, THEN conjunct2, THEN conjunct2,
        THEN conjunct2, THEN conjunct2, THEN conjunct2, THEN conjunct2]
    by simp
  from 1 2 3 4 5 6 7 8 9 show ?thesis by blast
qed

text \<open>In the markdown validator a missing path and a document with a skipped heading
  level (one error) end the process with the same status 1.\<close>

theorem usage_error_exit_equals_failure_exit:
  "doc_validator_main plain_args Missing (\<lambda>p. Absent) = 1
   \<and> map_sum id error_count (validate_document ''d.md'' (Holds skipped_level)) = Inr 1
   \<and> doc_validator_main plain_args IsFile (\<lambda>p. Holds skipped_level) = 1"
  using skipped_level_errors
    exit_for_reports_errors[of "[validate_text ''d.md'' skipped_level]" plain_args]
  by (simp add: doc_validator_main_def validate_and_exit_def plain_args_def validate_document_def)

section \<open>Parse failures\<close>






definition open_fence_lines :: "string list" where
  "open_fence_lines = [''# A'', ''text'', fence @ ''py'', ''code'']"

definition open_fence_document :: string where
  "open_fence_document = join [NL] open_fence_lines"


subsection \<open>A fence that is never closed\<close>


















lemma open_fence_split: "split_on NL open_fence_document = open_fence_lines"
  by code_simp






section \<open>String literals and comments in the review checklist\<close>





























end
